theory Spec2Isabelle
  imports Main "HOL-Library.Sublist"
begin

section \<open>Chesster: message dispatch and context resolution\<close>

text \<open>
  A shallow embedding of the message-routing core of Chesster:
  \<^item> \<^verbatim>\<open>src/utils/SlackEventsAPIUtils/chessterUtils.ts\<close>: \<^verbatim>\<open>normalizeMessageText\<close>,
    \<^verbatim>\<open>determineMessageContext\<close>, \<^verbatim>\<open>doesListenerWantMessageType\<close>,
    \<^verbatim>\<open>findMatchingListener\<close>, \<^verbatim>\<open>applyMiddleware\<close>, \<^verbatim>\<open>processChessterMessage\<close>;
  \<^item> the Slack module (\<^verbatim>\<open>src/unnamed/part_001\<close>): \<^verbatim>\<open>requiresModerator\<close>,
    \<^verbatim>\<open>requiresLeague\<close>, \<^verbatim>\<open>findLeagueByMessageText\<close>, \<^verbatim>\<open>getLeague\<close>,
    \<^verbatim>\<open>SlackEntityLookup\<close>, \<^verbatim>\<open>SlackBot.reply\<close>, \<^verbatim>\<open>SlackBot.handleMatch\<close>.

  JavaScript exceptions are values of the type \<open>error\<close>; a function that may throw returns
  \<open>error + 'a\<close>. Side effects (log lines, outgoing Slack messages, callback invocations)
  are recorded in a trace of \<open>event\<close>s, in program order.
\<close>

subsection \<open>Exceptions and events\<close>

text \<open>
  \<^verbatim>\<open>class StopControllerError extends Error\<close> is the abort signal of the middleware;
  \<^verbatim>\<open>Error\<close> is a plain JavaScript error; \<^verbatim>\<open>TypeError\<close> is what the runtime throws on a
  property access on \<^verbatim>\<open>undefined\<close>.
\<close>

datatype error = Error string | StopControllerError string | TypeError string

fun isStopControllerError :: "error \<Rightarrow> bool" where
  "isStopControllerError (StopControllerError _) = True"
| "isStopControllerError _ = False"

subsection \<open>Strings\<close>

text \<open>
  \<^verbatim>\<open>String.prototype.replace(pattern, replacement)\<close> with a string pattern replaces the
  leftmost occurrence of the pattern only. The replacement used by the source is the empty
  string, which has no \<^verbatim>\<open>$\<close> patterns to expand.
\<close>

fun replace :: "string \<Rightarrow> string \<Rightarrow> string \<Rightarrow> string" where
  "replace pat rep [] = (if pat = [] then rep else [])"
| "replace pat rep (c # cs) =
     (if prefix pat (c # cs) then rep @ drop (length pat) (c # cs)
      else c # replace pat rep cs)"

text \<open>\<^verbatim>\<open>String.prototype.includes\<close>: the pattern occurs somewhere in the text.\<close>

fun includesStr :: "string \<Rightarrow> string \<Rightarrow> bool" where
  "includesStr [] pat = (pat = [])"
| "includesStr (c # cs) pat = (prefix pat (c # cs) \<or> includesStr cs pat)"

text \<open>The mention markup of a user id: the template literal \<^verbatim>\<open>`<@${botUserId}>`\<close>.\<close>

definition mention :: "string \<Rightarrow> string" where
  "mention botUserId = ''<@'' @ botUserId @ ''>''"

text \<open>
  \<^verbatim>\<open>
  export function normalizeMessageText(text: string, botUserId: string): string {
      return text.replace(`<@${botUserId}> `, '').replace(`<@${botUserId}>`, '')
  }
  \<close>
\<close>

definition normalizeMessageText :: "string \<Rightarrow> string \<Rightarrow> string" where
  "normalizeMessageText text botUserId =
     replace (mention botUserId) [] (replace (mention botUserId @ '' '') [] text)"

subsection \<open>Context classifier\<close>

text \<open>
  The channel argument of \<^verbatim>\<open>determineMessageContext\<close> is read with optional chaining
  (\<^verbatim>\<open>channel?.is_im ?? false\<close>): the channel itself and each flag may be absent.
\<close>

record channelFlags =
  is_im :: "bool option"
  is_group :: "bool option"

text \<open>
  \<^verbatim>\<open>SlackChannel\<close>, with the fields the dispatch core reads. The interface declares
  \<^verbatim>\<open>name\<close> as a string, but the channels of direct messages have none, and the code
  tests it for truthiness before use.
\<close>

record SlackChannel = channelFlags +
  ch_id :: string
  ch_name :: "string option"

datatype contextType = mention_type | DM_type | ambient_type

text \<open>
  The four category flags are what \<^verbatim>\<open>findMatchingListener\<close> and
  \<^verbatim>\<open>doesListenerWantMessageType\<close> take as their context; the classifier returns them
  together with the label \<^verbatim>\<open>type\<close>.
\<close>

record contextFlags =
  isDirectMessage :: bool
  isDirectMention :: bool
  isAmbient :: bool
  isBotMessage :: bool

record messageContext = contextFlags +
  ctx_type :: contextType

text \<open>\<^verbatim>\<open>x ?? false\<close> on an optional boolean.\<close>

fun orFalse :: "bool option \<Rightarrow> bool" where
  "orFalse None = False"
| "orFalse (Some b) = b"

text \<open>\<^verbatim>\<open>channel?.f\<close>: absent when the channel is absent.\<close>

fun optChain :: "'a option \<Rightarrow> ('a \<Rightarrow> 'b option) \<Rightarrow> 'b option" where
  "optChain None f = None"
| "optChain (Some c) f = f c"

definition determineMessageContext :: "'a channelFlags_scheme option \<Rightarrow> bool \<Rightarrow> messageContext" where
  "determineMessageContext channel isDirectMention' =
     (let isDirectMessage' =
            (orFalse (optChain channel is_im) \<and> \<not> orFalse (optChain channel is_group));
          isAmbient' = (\<not> (isDirectMention' \<or> isDirectMessage'))
      in \<lparr> isDirectMessage = isDirectMessage',
           isDirectMention = isDirectMention',
           isAmbient = isAmbient',
           isBotMessage = False,
           ctx_type = (if isDirectMention' then mention_type
                       else if isDirectMessage' then DM_type else ambient_type) \<rparr>)"

text \<open>The number of category flags that are set in a context.\<close>

definition flagCount :: "'a contextFlags_scheme \<Rightarrow> nat" where
  "flagCount ctx =
     length (filter (\<lambda>b. b)
       [isDirectMessage ctx, isDirectMention ctx, isAmbient ctx, isBotMessage ctx])"

subsection \<open>Middleware of the events-API utilities\<close>

text \<open>
  \<^verbatim>\<open>
  export function applyMiddleware(message, middleware?) {
      if (!middleware || middleware.length === 0) { return message }
      let processedMessage = message
      for (const middlewareFn of middleware) {
          processedMessage = middlewareFn(processedMessage)
      }
      return processedMessage
  }
  \<close>
  A middleware function returns the transformed message or throws; the loop stops at the
  first exception, which leaves \<^verbatim>\<open>applyMiddleware\<close>.
\<close>

fun applyMiddlewareLoop :: "'m \<Rightarrow> ('m \<Rightarrow> error + 'm) list \<Rightarrow> error + 'm" where
  "applyMiddlewareLoop processedMessage [] = Inr processedMessage"
| "applyMiddlewareLoop processedMessage (middlewareFn # rest) =
     (case middlewareFn processedMessage of
        Inl e \<Rightarrow> Inl e
      | Inr m' \<Rightarrow> applyMiddlewareLoop m' rest)"

definition applyMiddleware :: "'m \<Rightarrow> ('m \<Rightarrow> error + 'm) list option \<Rightarrow> error + 'm" where
  "applyMiddleware message middleware =
     (case middleware of
        None \<Rightarrow> Inr message
      | Some fs \<Rightarrow> if length fs = 0 then Inr message else applyMiddlewareLoop message fs)"

text \<open>A transform that never throws, as a middleware function.\<close>

definition pureMiddleware :: "('m \<Rightarrow> 'm) \<Rightarrow> 'm \<Rightarrow> error + 'm" where
  "pureMiddleware f m = Inr (f m)"

text \<open>Left-to-right composition: the first transform of the list is applied first.\<close>

fun composeAll :: "('m \<Rightarrow> 'm) list \<Rightarrow> 'm \<Rightarrow> 'm" where
  "composeAll [] = (\<lambda>m. m)"
| "composeAll (f # fs) = composeAll fs \<circ> f"

subsection \<open>Listeners and matching\<close>

datatype HearsEventType = ambient | direct_message | direct_mention | bot_message

datatype listenerType = command | league_command

text \<open>
  A registered listener (\<^verbatim>\<open>SlackEventListenerOptions\<close>, \<^verbatim>\<open>SlackRTMEventListenerOptions\<close>).
  The types of the patterns, the middleware functions and the callback are parameters:
  the events-API utilities and \<^verbatim>\<open>SlackBot.handleMatch\<close> call them with different
  arguments.
\<close>

record ('p, 'mw, 'cb) listener =
  listener_type :: listenerType
  patterns :: "'p list"
  messageTypes :: "HearsEventType list"
  middleware :: "'mw list option"
  callback :: 'cb

text \<open>
  \<^verbatim>\<open>
  if (isDirectMessage && listener.messageTypes.includes('direct_message')) { return true }
  if (isDirectMention && listener.messageTypes.includes('direct_mention')) { return true }
  if (isAmbient && listener.messageTypes.includes('ambient')) { return true }
  if (isBotMessage && listener.messageTypes.includes('bot_message')) { return true }
  return false
  \<close>
\<close>

definition doesListenerWantMessageType ::
  "('p, 'mw, 'cb) listener \<Rightarrow> 'a contextFlags_scheme \<Rightarrow> bool" where
  "doesListenerWantMessageType l ctx =
     (if isDirectMessage ctx \<and> direct_message \<in> set (messageTypes l) then True
      else if isDirectMention ctx \<and> direct_mention \<in> set (messageTypes l) then True
      else if isAmbient ctx \<and> ambient \<in> set (messageTypes l) then True
      else if isBotMessage ctx \<and> bot_message \<in> set (messageTypes l) then True
      else False)"

text \<open>The flag of a context that belongs to a message type.\<close>

fun categoryFlag :: "'a contextFlags_scheme \<Rightarrow> HearsEventType \<Rightarrow> bool" where
  "categoryFlag ctx direct_message = isDirectMessage ctx"
| "categoryFlag ctx direct_mention = isDirectMention ctx"
| "categoryFlag ctx ambient = isAmbient ctx"
| "categoryFlag ctx bot_message = isBotMessage ctx"

text \<open>
  The inner loop of \<^verbatim>\<open>findMatchingListener\<close>. The argument \<open>rx\<close> stands for the
  runtime's \<^verbatim>\<open>text.match(pattern)\<close>: \<open>None\<close> for \<^verbatim>\<open>null\<close>, else the match array.
  \<^verbatim>\<open>
  for (const pattern of listener.patterns) {
      const matches = text.match(pattern)
      if (matches) { return { listener, matches } }
  }
  \<close>
\<close>

fun matchPatterns :: "('p \<Rightarrow> string \<Rightarrow> string list option) \<Rightarrow> 'p list \<Rightarrow> string \<Rightarrow> string list option" where
  "matchPatterns rx [] t = None"
| "matchPatterns rx (pattern # rest) t =
     (case rx pattern t of
        Some matches \<Rightarrow> Some matches
      | None \<Rightarrow> matchPatterns rx rest t)"

text \<open>
  \<^verbatim>\<open>
  for (const listener of listeners) {
      if (!doesListenerWantMessageType(listener, context)) { continue }
      ... inner loop ...
  }
  return null
  \<close>
\<close>

fun findMatchingListener ::
  "('p \<Rightarrow> string \<Rightarrow> string list option) \<Rightarrow> ('p, 'mw, 'cb) listener list \<Rightarrow> string
     \<Rightarrow> 'a contextFlags_scheme \<Rightarrow> (('p, 'mw, 'cb) listener \<times> string list) option" where
  "findMatchingListener rx [] t ctx = None"
| "findMatchingListener rx (l # rest) t ctx =
     (if \<not> doesListenerWantMessageType l ctx then findMatchingListener rx rest t ctx
      else (case matchPatterns rx (patterns l) t of
              Some matches \<Rightarrow> Some (l, matches)
            | None \<Rightarrow> findMatchingListener rx rest t ctx))"

subsection \<open>Plain objects as dictionaries\<close>

text \<open>
  \<^verbatim>\<open>SlackEntityLookup\<close> keeps its maps in plain objects (\<^verbatim>\<open>= {}\<close>), which inherit the
  members of \<^verbatim>\<open>Object.prototype\<close>. Reading \<^verbatim>\<open>obj[k]\<close> gives the object's own property
  \<open>k\<close> if it has one, else the inherited member when \<open>k\<close> is one of the names below,
  else \<^verbatim>\<open>undefined\<close>. A map \<open>string \<rightharpoonup> 'a\<close> holds the own properties.
\<close>

definition objectPrototypeKeys :: "string list" where
  "objectPrototypeKeys =
     [''constructor'', ''__defineGetter__'', ''__defineSetter__'', ''hasOwnProperty'',
      ''__lookupGetter__'', ''__lookupSetter__'', ''isPrototypeOf'', ''propertyIsEnumerable'',
      ''toString'', ''valueOf'', ''__proto__'', ''toLocaleString'']"

datatype 'a property = Absent | Inherited | Own 'a

definition getProp :: "(string \<rightharpoonup> 'a) \<Rightarrow> string \<Rightarrow> 'a property" where
  "getProp obj k =
     (case obj k of
        Some v \<Rightarrow> Own v
      | None \<Rightarrow> if k \<in> set objectPrototypeKeys then Inherited else Absent)"

text \<open>
  The assignment \<^verbatim>\<open>obj[k] = v\<close> sets the own property \<open>k\<close>. The one exception is the key
  \<^verbatim>\<open>__proto__\<close> on an object without an own property of that name: the inherited setter
  runs and no own property is added (the prototype it installs is not tracked here; no
  sequence of \<^verbatim>\<open>add\<close> calls on a new index reaches that assignment, since the calls
  throw before they assign under an inherited key).
\<close>

definition setProp :: "(string \<rightharpoonup> 'a) \<Rightarrow> string \<Rightarrow> 'a \<Rightarrow> (string \<rightharpoonup> 'a)" where
  "setProp obj k v = (if k = ''__proto__'' \<and> obj k = None then obj else obj(k \<mapsto> v))"

subsection \<open>Entities, leagues and messages\<close>

text \<open>
  \<^verbatim>\<open>SlackEntityWithNameAndId\<close>: what \<^verbatim>\<open>SlackEntityLookup\<close> reads of a user or a channel.
\<close>

record SlackEntity =
  ent_id :: string
  ent_name :: "string option"
  lichess_username :: "string option"

text \<open>
  A league, as far as this module reads it: \<^verbatim>\<open>l.name\<close> and \<^verbatim>\<open>l.config.alsoKnownAs\<close>.
  The class itself lives in the league module.
\<close>

record League =
  league_name :: string
  alsoKnownAs :: "string list"

text \<open>
  An optional property that the code tests both with \<^verbatim>\<open>_.isUndefined\<close> and for
  truthiness (\<^verbatim>\<open>message.league\<close>).
\<close>

datatype 'a js = Undefined | Null | Defined 'a

fun truthy :: "'a js \<Rightarrow> bool" where
  "truthy (Defined _) = True"
| "truthy _ = False"

text \<open>
  \<^verbatim>\<open>ChessterMessage\<close> and \<^verbatim>\<open>CommandMessage\<close> (the latter adds \<^verbatim>\<open>matches\<close>); the constant
  field \<^verbatim>\<open>type\<close> and the attachments are left out. A falsy \<^verbatim>\<open>user\<close> is the empty
  string. The property \<^verbatim>\<open>member\<close> holds what the user index answered, which may be a
  member of \<^verbatim>\<open>Object.prototype\<close>. The interface declares \<^verbatim>\<open>channel\<close> as required; the code nevertheless guards
  some of its reads (\<^verbatim>\<open>if (!message.channel) return\<close>), so it is optional here and an
  unguarded read of a missing channel is a \<^verbatim>\<open>TypeError\<close>.
\<close>

record ChessterMessage =
  msg_user :: string
  msg_channel :: "SlackChannel option"
  msg_text :: string
  msg_member :: "SlackEntity property"
  msg_league :: "League js"
  msg_isModerator :: "bool option"
  msg_ts :: string
  msg_isPingModerator :: bool
  msg_matches :: "string list"

text \<open>
  The trace of side effects. A log event carries the fixed leading words of the logged
  template (the interpolated values are left out). \<open>Say channel text\<close> is a call of
  \<^verbatim>\<open>SlackBot.say({channel, text})\<close>, or of Bolt's \<^verbatim>\<open>say\<close> for the channel of the event:
  one message posted to the channel. The event keeps the text as it is passed to
  \<^verbatim>\<open>say\<close>; \<^verbatim>\<open>SlackBot.say\<close> rewrites user tokens \<^verbatim>\<open><@name>\<close> of it to
  \<^verbatim>\<open><@id|name>\<close> by the user index before it posts. \<open>CallbackCalled m\<close> is a call of
  a listener's callback with the message \<open>m\<close>.
\<close>

datatype event =
    LogInfo string
  | LogWarn string
  | LogError string
  | Say string string
  | CallbackCalled ChessterMessage

type_synonym 'a eff = "event list \<times> (error + 'a)"

text \<open>Sequencing of two effectful computations: an exception skips the second.\<close>

definition andThen :: "'a eff \<Rightarrow> ('a \<Rightarrow> 'b eff) \<Rightarrow> 'b eff" where
  "andThen c f =
     (case c of
        (ev, Inl e) \<Rightarrow> (ev, Inl e)
      | (ev, Inr v) \<Rightarrow> (case f v of (ev', r) \<Rightarrow> (ev @ ev', r)))"

text \<open>\<^verbatim>\<open>try { body } catch (error) { handler }\<close>.\<close>

definition tryCatch :: "'a eff \<Rightarrow> (error \<Rightarrow> 'a eff) \<Rightarrow> 'a eff" where
  "tryCatch body handler =
     (case body of
        (ev, Inl e) \<Rightarrow> (case handler e of (ev', r) \<Rightarrow> (ev @ ev', r))
      | (ev, Inr v) \<Rightarrow> (ev, Inr v))"

definition logged :: "event \<Rightarrow> unit eff" where
  "logged e = ([e], Inr ())"

subsection \<open>Collaborators outside this module\<close>

text \<open>
  The functions this module calls in the fuzzy-match and league modules and in the
  JavaScript runtime, as parameters:
  \<^item> \<open>rankChoices\<close>, \<open>findBestMatches\<close>: \<^verbatim>\<open>fuzzy.rankChoices\<close>, \<^verbatim>\<open>fuzzy.findBestMatches\<close>;
    \<open>resultValue\<close> reads the field \<^verbatim>\<open>value\<close> of a \<^verbatim>\<open>fuzzy.Result\<close>;
  \<^item> \<open>leagueGetLeague\<close>: \<^verbatim>\<open>league.getLeague(bot, name)\<close>, where the name may be
    \<^verbatim>\<open>undefined\<close>; \<open>getAllLeagues\<close>: \<^verbatim>\<open>league.getAllLeagues(bot)\<close>;
    \<open>isModerator\<close>: the method \<^verbatim>\<open>League.isModerator\<close>;
  \<^item> \<open>toLowerCase\<close>, \<open>toUpperCase\<close>: the methods of \<^verbatim>\<open>String.prototype\<close>.
\<close>

record 'r externals =
  rankChoices :: "string \<Rightarrow> string list \<Rightarrow> 'r list"
  findBestMatches :: "'r list \<Rightarrow> 'r list"
  resultValue :: "'r \<Rightarrow> string"
  leagueGetLeague :: "string option \<Rightarrow> League option"
  getAllLeagues :: "League list"
  isModerator :: "League \<Rightarrow> string option \<Rightarrow> bool"
  toLowerCase :: "string \<Rightarrow> string"
  toUpperCase :: "string \<Rightarrow> string"

subsection \<open>Entity index\<close>

text \<open>
  The own properties of the four maps of \<^verbatim>\<open>SlackEntityLookup\<close>, and the lines its logger
  has written.
\<close>

record SlackEntityLookup =
  byName :: "string \<rightharpoonup> SlackEntity"
  byId :: "string \<rightharpoonup> SlackEntity"
  nameDuplicates :: "string \<rightharpoonup> SlackEntity list"
  idDuplicates :: "string \<rightharpoonup> SlackEntity list"
  lookup_log :: "event list"

text \<open>A new index: four objects \<^verbatim>\<open>{}\<close>, without own properties.\<close>

definition newLookup :: SlackEntityLookup where
  "newLookup = \<lparr> byName = Map.empty, byId = Map.empty, nameDuplicates = Map.empty,
                 idDuplicates = Map.empty, lookup_log = [] \<rparr>"

text \<open>
  \<^verbatim>\<open>
  _addByIdWithDuplicate(id: string, entity: SlackEntity) {
      if (isDefined(this.byId[id])) {
          this.idDuplicates[id].push(entity)
      } else {
          this.idDuplicates[id] = [entity]
      }
      this.byId[id] = entity
  }
  \<close>
  \<^verbatim>\<open>isDefined\<close> holds for an own property and for an inherited member alike. \<^verbatim>\<open>push\<close> on a
  missing list or on an inherited member is a \<^verbatim>\<open>TypeError\<close>; the state a failed call
  leaves behind is not returned.
\<close>

definition addByIdWithDuplicate :: "string \<Rightarrow> SlackEntity \<Rightarrow> SlackEntityLookup \<Rightarrow> error + SlackEntityLookup" where
  "addByIdWithDuplicate k entity lk =
     (case getProp (byId lk) k of
        Absent \<Rightarrow> Inr (lk\<lparr> idDuplicates := setProp (idDuplicates lk) k [entity],
                            byId := setProp (byId lk) k entity \<rparr>)
      | _ \<Rightarrow>
          (case getProp (idDuplicates lk) k of
             Absent \<Rightarrow> Inl (TypeError ''Cannot read properties of undefined (reading push)'')
           | Inherited \<Rightarrow> Inl (TypeError ''this.idDuplicates[id].push is not a function'')
           | Own l \<Rightarrow> Inr (lk\<lparr> idDuplicates := (idDuplicates lk)(k \<mapsto> l @ [entity]),
                               byId := setProp (byId lk) k entity \<rparr>)))"

text \<open>
  \<^verbatim>\<open>
  _addByNameWithDuplicate(key: string, entity: SlackEntity) {
      if (isDefined(this.byName[key])) {
          this.nameDuplicates[key].push(entity)
      } else {
          this.nameDuplicates[key] = [entity]
      }
      this.byName[key] = entity
  }
  \<close>
\<close>

definition addByNameWithDuplicate :: "string \<Rightarrow> SlackEntity \<Rightarrow> SlackEntityLookup \<Rightarrow> error + SlackEntityLookup" where
  "addByNameWithDuplicate k entity lk =
     (case getProp (byName lk) k of
        Absent \<Rightarrow> Inr (lk\<lparr> nameDuplicates := setProp (nameDuplicates lk) k [entity],
                            byName := setProp (byName lk) k entity \<rparr>)
      | _ \<Rightarrow>
          (case getProp (nameDuplicates lk) k of
             Absent \<Rightarrow> Inl (TypeError ''Cannot read properties of undefined (reading push)'')
           | Inherited \<Rightarrow> Inl (TypeError ''this.nameDuplicates[key].push is not a function'')
           | Own l \<Rightarrow> Inr (lk\<lparr> nameDuplicates := (nameDuplicates lk)(k \<mapsto> l @ [entity]),
                               byName := setProp (byName lk) k entity \<rparr>)))"

text \<open>
  \<^verbatim>\<open>
  idDuplicateCount(id: string) {
      id = id.toUpperCase()
      const l = this.idDuplicates[id]
      if (isDefined(l)) { return l.length }
      return 0
  }
  getIdDuplicates(id: string): SlackEntity[] {
      id = id.toUpperCase()
      const l = this.idDuplicates[id]
      if (isDefined(l)) { return l }
      return []
  }
  \<close>
  For an inherited key, \<^verbatim>\<open>getIdDuplicates\<close> returns the inherited member (\<open>Inherited\<close>)
  and \<^verbatim>\<open>idDuplicateCount\<close> the property \<^verbatim>\<open>length\<close> of that member (\<open>Inherited\<close> again:
  not a count of records).
\<close>

definition getIdDuplicates :: "'r externals \<Rightarrow> SlackEntityLookup \<Rightarrow> string \<Rightarrow> SlackEntity list property" where
  "getIdDuplicates X lk i =
     (case getProp (idDuplicates lk) (toUpperCase X i) of
        Own l \<Rightarrow> Own l
      | Inherited \<Rightarrow> Inherited
      | Absent \<Rightarrow> Own [])"

definition idDuplicateCount :: "'r externals \<Rightarrow> SlackEntityLookup \<Rightarrow> string \<Rightarrow> nat property" where
  "idDuplicateCount X lk i =
     (case getProp (idDuplicates lk) (toUpperCase X i) of
        Own l \<Rightarrow> Own (length l)
      | Inherited \<Rightarrow> Inherited
      | Absent \<Rightarrow> Own 0)"

text \<open>A string property that is present and not empty.\<close>

fun truthyStr :: "string option \<Rightarrow> bool" where
  "truthyStr None = False"
| "truthyStr (Some s) = (s \<noteq> [])"

text \<open>
  \<^verbatim>\<open>
  add(entity: SlackEntity) {
      this._addByIdWithDuplicate(entity.id.toUpperCase(), entity)
      if (entity.id.startsWith('D')) { return }
      if (entity.name === undefined) {
          this.log.warn(`${entity.id} does not have a name`)
          return
      }
      if (entity.name) {
          this._addByNameWithDuplicate(entity.name.toLowerCase(), entity)
      }
      if (entity.lichess_username) {
          this._addByNameWithDuplicate(entity.lichess_username.toLowerCase(), entity)
      }
  }
  \<close>
\<close>

definition addNameKey :: "'r externals \<Rightarrow> string option \<Rightarrow> SlackEntity \<Rightarrow> SlackEntityLookup \<Rightarrow> error + SlackEntityLookup" where
  "addNameKey X key entity lk =
     (case key of
        None \<Rightarrow> Inr lk
      | Some s \<Rightarrow> if s \<noteq> [] then addByNameWithDuplicate (toLowerCase X s) entity lk else Inr lk)"

definition add :: "'r externals \<Rightarrow> SlackEntity \<Rightarrow> SlackEntityLookup \<Rightarrow> error + SlackEntityLookup" where
  "add X entity lk =
     (case addByIdWithDuplicate (toUpperCase X (ent_id entity)) entity lk of
        Inl e \<Rightarrow> Inl e
      | Inr lk1 \<Rightarrow>
          if prefix ''D'' (ent_id entity) then Inr lk1
          else if ent_name entity = None
          then Inr (lk1\<lparr> lookup_log := lookup_log lk1 @ [LogWarn ''does not have a name''] \<rparr>)
          else (case addNameKey X (ent_name entity) entity lk1 of
                  Inl e \<Rightarrow> Inl e
                | Inr lk2 \<Rightarrow> addNameKey X (lichess_username entity) entity lk2))"

text \<open>A sequence of \<^verbatim>\<open>add\<close> calls on one index; the first exception ends it.\<close>

fun addAll :: "'r externals \<Rightarrow> SlackEntity list \<Rightarrow> SlackEntityLookup \<Rightarrow> error + SlackEntityLookup" where
  "addAll X [] lk = Inr lk"
| "addAll X (entity # rest) lk =
     (case add X entity lk of Inl e \<Rightarrow> Inl e | Inr lk' \<Rightarrow> addAll X rest lk')"

text \<open>
  \<^verbatim>\<open>
  getByNameOrID(nameOrId: string): SlackEntity | undefined {
      return (this.byId[nameOrId.toUpperCase()] || this.byName[nameOrId.toLowerCase()])
  }
  \<close>
  An entity and an inherited member are both truthy, so \<^verbatim>\<open>||\<close> returns the first of the
  two reads that is not \<^verbatim>\<open>undefined\<close>.
\<close>

definition getByNameOrID :: "'r externals \<Rightarrow> SlackEntityLookup \<Rightarrow> string \<Rightarrow> SlackEntity property" where
  "getByNameOrID X lk nameOrId =
     (case getProp (byId lk) (toUpperCase X nameOrId) of
        Absent \<Rightarrow> getProp (byName lk) (toLowerCase X nameOrId)
      | found \<Rightarrow> found)"

subsection \<open>The bot, replies and the standard middleware\<close>

text \<open>
  What the dispatch core reads of a \<^verbatim>\<open>SlackBot\<close>: \<^verbatim>\<open>config.channelMap\<close>,
  \<^verbatim>\<open>config.pingMods\<close> and the user index.
\<close>

record SlackBot =
  channelMap :: "string \<rightharpoonup> string"
  pingMods :: "string \<rightharpoonup> string list"
  users :: SlackEntityLookup

text \<open>
  \<^verbatim>\<open>
  async reply(message: ChessterMessage, response: string) {
      if (!message.channel) return
      return this.say({ channel: message.channel.id, text: response })
  }
  \<close>
\<close>

definition reply :: "SlackBot \<Rightarrow> ChessterMessage \<Rightarrow> string \<Rightarrow> event list" where
  "reply bt message response =
     (case msg_channel message of
        None \<Rightarrow> []
      | Some ch \<Rightarrow> [Say (ch_id ch) response])"

type_synonym MiddlewareFn = "SlackBot \<Rightarrow> ChessterMessage \<Rightarrow> ChessterMessage eff"

type_synonym CallbackFn = "SlackBot \<Rightarrow> ChessterMessage \<Rightarrow> unit eff"

text \<open>
  \<^verbatim>\<open>
  export function requiresModerator(bot: SlackBot, message: CommandMessage): CommandMessage {
      if (_.isUndefined(message.league)) {
          throw new Error('requiresModerator MUST be called after withLeague.')
      }
      if (!message.league) {
          throw new Error('Not in a league context')
      }
      if (!message.isModerator) {
          bot.reply(message,
              `You are not a moderator of the ${message.league.name} league. Your temerity has been logged.`)
          throw new StopControllerError('Not a moderator.')
      }
      return message
  }
  \<close>
\<close>

definition notModeratorText :: "string \<Rightarrow> string" where
  "notModeratorText leagueName =
     ''You are not a moderator of the '' @ leagueName @ '' league. Your temerity has been logged.''"

definition requiresModerator :: MiddlewareFn where
  "requiresModerator bt message =
     (case msg_league message of
        Undefined \<Rightarrow> ([], Inl (Error ''requiresModerator MUST be called after withLeague.''))
      | Null \<Rightarrow> ([], Inl (Error ''Not in a league context''))
      | Defined l \<Rightarrow>
          if \<not> orFalse (msg_isModerator message)
          then (reply bt message (notModeratorText (league_name l)),
                Inl (StopControllerError ''Not a moderator.''))
          else ([], Inr message))"

text \<open>
  \<^verbatim>\<open>
  export function requiresLeague(bot: SlackBot, message: CommandMessage): CommandMessage {
      if (!message.league) {
          bot.reply(message, 'This command requires you to specify the league ...')
          throw new StopControllerError('No league specified')
      }
      return message
  }
  \<close>
\<close>

definition requiresLeague :: MiddlewareFn where
  "requiresLeague bt message =
     (if \<not> truthy (msg_league message)
      then (reply bt message
              ''This command requires you to specify the league you are interested in. Please include that next time'',
            Inl (StopControllerError ''No league specified''))
      else ([], Inr message))"

subsection \<open>League resolution\<close>

text \<open>\<^verbatim>\<open>text.split(' ')\<close>: the pieces between single spaces; never the empty list.\<close>

fun split :: "string \<Rightarrow> char \<Rightarrow> string list" where
  "split [] sep = [[]]"
| "split (c # cs) sep =
     (if c = sep then [] # split cs sep
      else (case split cs sep of
              [] \<Rightarrow> [[c]]
            | w # ws \<Rightarrow> (c # w) # ws))"

text \<open>
  An object used as a dictionary with string keys, in the order of \<^verbatim>\<open>_.keys\<close>:
  \<^verbatim>\<open>obj[k] = v\<close> overwrites the value of a key in place or appends a new key.
\<close>

fun setKey :: "string \<Rightarrow> 'v \<Rightarrow> (string \<times> 'v) list \<Rightarrow> (string \<times> 'v) list" where
  "setKey k v [] = [(k, v)]"
| "setKey k v (p # ps) = (if fst p = k then (k, v) # ps else p # setKey k v ps)"

text \<open>
  The targets of \<^verbatim>\<open>findLeagueByMessageText\<close>, in the order of the \<^verbatim>\<open>add_target\<close> calls:
  per league its name, then its aliases.
  \<^verbatim>\<open>
  _.each(allLeagues, (l) => {
      add_target(l, l.name)
      _.each(l.config.alsoKnownAs, (aka) => add_target(l, aka))
  })
  \<close>
\<close>

definition targetPairs :: "League list \<Rightarrow> (string \<times> League) list" where
  "targetPairs allLeagues =
     concat (map (\<lambda>l. (league_name l, l) # map (\<lambda>aka. (aka, l)) (alsoKnownAs l)) allLeagues)"

definition leagueTargets :: "League list \<Rightarrow> string list" where
  "leagueTargets allLeagues = map fst (targetPairs allLeagues)"

text \<open>\<^verbatim>\<open>targetToLeague[target] = l\<close>: a later \<^verbatim>\<open>add_target\<close> overwrites an earlier one.\<close>

definition targetToLeague :: "League list \<Rightarrow> string \<rightharpoonup> League" where
  "targetToLeague allLeagues = map_of (rev (targetPairs allLeagues))"

text \<open>
  \<^verbatim>\<open>
  const args = message.text.split(' ')
  _.each(args, (arg) => {
      const results = fuzzy.rankChoices(arg.toLowerCase(), leagueTargets)
      matches.push(results)
  })
  const bestMatches = fuzzy.findBestMatches(_.flatten(matches))
  \<close>
\<close>

definition bestMatches :: "'r externals \<Rightarrow> ChessterMessage \<Rightarrow> 'r list" where
  "bestMatches X message =
     findBestMatches X
       (concat (map (\<lambda>arg. rankChoices X (toLowerCase X arg) (leagueTargets (getAllLeagues X)))
                    (split (msg_text message) CHR '' '')))"

text \<open>
  \<^verbatim>\<open>
  _.each(bestMatches, (match) => {
      const l = targetToLeague[match.value]
      possibleLeagues[l.name] = l
  })
  \<close>
  A match whose value is not a target makes \<^verbatim>\<open>l\<close> undefined, and \<^verbatim>\<open>l.name\<close> a
  \<^verbatim>\<open>TypeError\<close>.
\<close>

fun possibleLeagues ::
  "(string \<rightharpoonup> League) \<Rightarrow> string list \<Rightarrow> (string \<times> League) list \<Rightarrow> error + (string \<times> League) list" where
  "possibleLeagues t2l [] acc = Inr acc"
| "possibleLeagues t2l (v # vs) acc =
     (case t2l v of
        None \<Rightarrow> Inl (TypeError ''Cannot read properties of undefined (reading name)'')
      | Some l \<Rightarrow> possibleLeagues t2l vs (setKey (league_name l) l acc))"

text \<open>
  \<^verbatim>\<open>
  const matchingLeagueNames = _.keys(possibleLeagues)
  if (matchingLeagueNames.length > 1) { throw new StopControllerError('Ambiguous leagues.') }
  if (matchingLeagueNames.length === 1) { return _.values(possibleLeagues)[0] }
  return null
  \<close>
\<close>

definition findLeagueByMessageText :: "'r externals \<Rightarrow> ChessterMessage \<Rightarrow> error + League option" where
  "findLeagueByMessageText X message =
     (case possibleLeagues (targetToLeague (getAllLeagues X))
             (map (resultValue X) (bestMatches X message)) [] of
        Inl e \<Rightarrow> Inl e
      | Inr pl \<Rightarrow>
          (let matchingLeagueNames = map fst pl
           in if length matchingLeagueNames > 1 then Inl (StopControllerError ''Ambiguous leagues.'')
              else if length matchingLeagueNames = 1 then Inr (Some (snd (pl ! 0)))
              else Inr None))"

text \<open>
  The first tier of \<^verbatim>\<open>getLeague\<close>: the league the map binds to the channel's name.
  \<^verbatim>\<open>
  if (channel && channel.name) {
      targetLeague = bot.config.channelMap[channel.name]
      l = league.getLeague(bot, targetLeague)
      if (l) { message.league = l; return l }
  }
  \<close>
\<close>

definition leagueByChannelName :: "'r externals \<Rightarrow> SlackBot \<Rightarrow> SlackChannel option \<Rightarrow> League option" where
  "leagueByChannelName X bt channel =
     (case channel of
        None \<Rightarrow> None
      | Some ch \<Rightarrow>
          (case ch_name ch of
             None \<Rightarrow> None
           | Some n \<Rightarrow> if n \<noteq> [] then leagueGetLeague X (channelMap bt n) else None))"

text \<open>
  The second tier: the league the map binds to the channel's id.
  \<^verbatim>\<open>
  if (channel && channel.id) {
      const channelId = channel.id
      targetLeague = bot.config.channelMap[channelId]
      if (targetLeague) {
          l = league.getLeague(bot, targetLeague)
          if (l) { message.league = l; return l }
      }
  }
  \<close>
\<close>

definition leagueByChannelId :: "'r externals \<Rightarrow> SlackBot \<Rightarrow> SlackChannel option \<Rightarrow> League option" where
  "leagueByChannelId X bt channel =
     (case channel of
        None \<Rightarrow> None
      | Some ch \<Rightarrow>
          if ch_id ch \<noteq> [] then
            (case channelMap bt (ch_id ch) of
               None \<Rightarrow> None
             | Some targetLeague \<Rightarrow>
                 if targetLeague \<noteq> [] then leagueGetLeague X (Some targetLeague) else None)
          else None)"

text \<open>
  \<^verbatim>\<open>getLeague(bot, message, channelOnly)\<close> returns the league (or \<^verbatim>\<open>undefined\<close>) or throws,
  and assigns \<^verbatim>\<open>message.league\<close>: the result comes with the message as it is left.
\<close>

definition getLeague ::
  "'r externals \<Rightarrow> SlackBot \<Rightarrow> ChessterMessage \<Rightarrow> bool \<Rightarrow> (error + League option) \<times> ChessterMessage" where
  "getLeague X bt message0 channelOnly =
     (let message = message0\<lparr> msg_league := Undefined \<rparr>;
          channel = msg_channel message
      in case leagueByChannelName X bt channel of
           Some l \<Rightarrow> (Inr (Some l), message\<lparr> msg_league := Defined l \<rparr>)
         | None \<Rightarrow>
             (case leagueByChannelId X bt channel of
                Some l \<Rightarrow> (Inr (Some l), message\<lparr> msg_league := Defined l \<rparr>)
              | None \<Rightarrow>
                  if \<not> channelOnly then
                    (case findLeagueByMessageText X message of
                       Inl e \<Rightarrow> (Inl e, message)
                     | Inr (Some l) \<Rightarrow> (Inr (Some l), message\<lparr> msg_league := Defined l \<rparr>)
                     | Inr None \<Rightarrow> (Inr None, message))
                  else (Inr None, message)))"

subsection \<open>Dispatch: \<^verbatim>\<open>SlackBot.handleMatch\<close>\<close>

text \<open>
  \<^verbatim>\<open>listener.middleware.forEach((m) => m(this, message))\<close>: every middleware function is
  called with the same message and its result is dropped; an exception ends the loop.
\<close>

fun forEachMiddleware :: "MiddlewareFn list \<Rightarrow> SlackBot \<Rightarrow> ChessterMessage \<Rightarrow> unit eff" where
  "forEachMiddleware [] bt message = ([], Inr ())"
| "forEachMiddleware (m # ms) bt message =
     andThen (m bt message) (\<lambda>_. forEachMiddleware ms bt message)"

text \<open>\<^verbatim>\<open>if (listener.middleware) { listener.middleware.forEach(...) }\<close>\<close>

definition runMiddleware :: "MiddlewareFn list option \<Rightarrow> SlackBot \<Rightarrow> ChessterMessage \<Rightarrow> unit eff" where
  "runMiddleware mws bt message =
     (case mws of
        None \<Rightarrow> ([], Inr ())
      | Some ms \<Rightarrow> forEachMiddleware ms bt message)"

text \<open>\<^verbatim>\<open>listener.callback(this, message)\<close>: the call is recorded, then the callback runs.\<close>

definition callCallback :: "CallbackFn \<Rightarrow> SlackBot \<Rightarrow> ChessterMessage \<Rightarrow> unit eff" where
  "callCallback cb bt message =
     (case cb bt message of (ev, r) \<Rightarrow> (CallbackCalled message # ev, r))"

text \<open>
  \<^verbatim>\<open>{ member, ...message }\<close>: the spread comes second, so a \<^verbatim>\<open>member\<close> property of the
  message itself wins over the resolved member.
\<close>

definition withMember :: "SlackEntity property \<Rightarrow> ChessterMessage \<Rightarrow> ChessterMessage" where
  "withMember member message =
     message\<lparr> msg_member := (case msg_member message of Absent \<Rightarrow> member | own \<Rightarrow> own) \<rparr>"

text \<open>
  The body of the inner \<^verbatim>\<open>try\<close> of \<^verbatim>\<open>handleMatch\<close>.
  \<^verbatim>\<open>
  if (listener.type === 'command' && allowedTypes.indexOf('command') !== -1) {
      this.log.info(`Executing command callback for pattern: ...`)
      if (listener.middleware) {
          listener.middleware.forEach((m) => m(this, { member, ...message }))
      }
      listener.callback(this, { member, ...message })
      this.log.info('Command executed successfully')
  } else if (listener.type === 'league_command' &&
             allowedTypes.indexOf('league_command') !== -1) {
      if (_league && member) {
          this.log.info(`Executing league_command callback for pattern: ...`)
          if (listener.middleware) {
              listener.middleware.forEach((m) => m(this, message))
          }
          const leagueCommandMessage: LeagueCommandMessage = {
              ...message, league: _league, member,
              isModerator: _league.isModerator(member.lichess_username),
          }
          listener.callback(this, leagueCommandMessage)
          this.log.info('League command executed successfully')
      } else {
          this.log.warn('Cannot execute league command - missing league or member')
      }
  }
  \<close>
\<close>

text \<open>
  \<^verbatim>\<open>member.lichess_username\<close> and \<^verbatim>\<open>member.id\<close> of a truthy member: the field of an
  entity, \<^verbatim>\<open>undefined\<close> on a member of \<^verbatim>\<open>Object.prototype\<close>.
\<close>

fun memberLichessUsername :: "SlackEntity property \<Rightarrow> string option" where
  "memberLichessUsername (Own mem) = lichess_username mem"
| "memberLichessUsername _ = None"

fun memberId :: "SlackEntity property \<Rightarrow> string option" where
  "memberId (Own mem) = Some (ent_id mem)"
| "memberId _ = None"

definition dispatchBody ::
  "'r externals \<Rightarrow> SlackBot \<Rightarrow> ('p, MiddlewareFn, CallbackFn) listener \<Rightarrow> ChessterMessage
     \<Rightarrow> League option \<Rightarrow> SlackEntity property \<Rightarrow> listenerType list \<Rightarrow> unit eff" where
  "dispatchBody X bt l message league' member allowedTypes =
     (if listener_type l = command \<and> command \<in> set allowedTypes then
        andThen (logged (LogInfo ''Executing command callback for pattern'')) (\<lambda>_.
        andThen (runMiddleware (middleware l) bt (withMember member message)) (\<lambda>_.
        andThen (callCallback (callback l) bt (withMember member message)) (\<lambda>_.
        logged (LogInfo ''Command executed successfully''))))
      else if listener_type l = league_command \<and> league_command \<in> set allowedTypes then
        (case league' of
           Some lg \<Rightarrow>
             if member \<noteq> Absent then
               andThen (logged (LogInfo ''Executing league_command callback for pattern'')) (\<lambda>_.
               andThen (runMiddleware (middleware l) bt message) (\<lambda>_.
               andThen (callCallback (callback l) bt
                          (message\<lparr> msg_league := Defined lg, msg_member := member,
                                    msg_isModerator := Some (isModerator X lg (memberLichessUsername member)) \<rparr>))
                       (\<lambda>_.
               logged (LogInfo ''League command executed successfully''))))
             else logged (LogWarn ''Cannot execute league command - missing league or member'')
         | None \<Rightarrow> logged (LogWarn ''Cannot execute league command - missing league or member''))
      else ([], Inr ()))"

text \<open>
  The handler of the inner \<^verbatim>\<open>try\<close>:
  \<^verbatim>\<open>
  } catch (error) {
      this.log.error(`Error in command execution: ...`)
      if (error instanceof StopControllerError) {
          this.log.error(`Middleware asked to not process controller callback: ...`)
      }
  }
  \<close>
\<close>

definition innerHandler :: "error \<Rightarrow> unit eff" where
  "innerHandler e =
     (LogError ''Error in command execution'' #
        (if isStopControllerError e
         then [LogError ''Middleware asked to not process controller callback''] else []),
      Inr ())"

text \<open>
  The handler of the outer \<^verbatim>\<open>try\<close>:
  \<^verbatim>\<open>
  } catch (e) {
      this.log.error(`Critical error handling event: ...`)
      this.say({ channel: message.channel.id,
                 text: 'Something has gone terribly terribly wrong. Please forgive me.' })
  }
  \<close>
\<close>

definition forgiveMeText :: string where
  "forgiveMeText = ''Something has gone terribly terribly wrong. Please forgive me.''"

definition outerHandler :: "SlackChannel \<Rightarrow> error \<Rightarrow> unit eff" where
  "outerHandler ch e =
     ([LogError ''Critical error handling event'', Say (ch_id ch) forgiveMeText], Inr ())"

text \<open>
  \<^verbatim>\<open>message.channel.id in this.config.pingMods && !!member &&
  this.config.pingMods[message.channel.id].includes(member.id)\<close>
\<close>

definition isPingModerator :: "SlackBot \<Rightarrow> SlackChannel \<Rightarrow> SlackEntity property \<Rightarrow> bool" where
  "isPingModerator bt ch member =
     (case pingMods bt (ch_id ch) of
        None \<Rightarrow> False
      | Some mods \<Rightarrow>
          if member \<noteq> Absent then
            (case memberId member of
               None \<Rightarrow> False
             | Some i \<Rightarrow> i \<in> set mods)
          else False)"

text \<open>
  \<^verbatim>\<open>handleMatch(listener, message)\<close>. The member lookup, \<^verbatim>\<open>getLeague\<close> and the assignment
  of \<^verbatim>\<open>isPingModerator\<close> stand before the \<^verbatim>\<open>try\<close>: an exception there leaves
  \<^verbatim>\<open>handleMatch\<close>.
  \<^verbatim>\<open>
  let allowedTypes = ['command', 'league_command']
  let member: LeagueMember | undefined
  if (message.user) {
      member = this.users.getByNameOrID(message.user)
      this.log.info(`Handle match found user: ...`)
  }
  const _league = getLeague(this, message, false)
  if (!_league || !member) { allowedTypes = ['command'] }
  message.isPingModerator = ...
  try { try { ... } catch (error) { ... } } catch (e) { ... }
  \<close>
\<close>

definition resolveMember :: "'r externals \<Rightarrow> SlackBot \<Rightarrow> ChessterMessage \<Rightarrow> SlackEntity property" where
  "resolveMember X bt message =
     (if msg_user message \<noteq> [] then getByNameOrID X (users bt) (msg_user message) else Absent)"

text \<open>The log lines written before \<^verbatim>\<open>getLeague\<close> is called.\<close>

definition entryLog :: "ChessterMessage \<Rightarrow> event list" where
  "entryLog message =
     LogInfo ''handleMatch called with pattern'' #
       (if msg_user message \<noteq> [] then [LogInfo ''Handle match found user''] else [])"

definition handleMatch ::
  "'r externals \<Rightarrow> SlackBot \<Rightarrow> ('p, MiddlewareFn, CallbackFn) listener \<Rightarrow> ChessterMessage \<Rightarrow> unit eff" where
  "handleMatch X bt l message0 =
     (let member = resolveMember X bt message0
      in case getLeague X bt message0 False of
           (Inl e, _) \<Rightarrow> (entryLog message0, Inl e)
         | (Inr league', message1) \<Rightarrow>
             (let allowedTypes = (if league' = None \<or> member = Absent then [command]
                                  else [command, league_command])
              in case msg_channel message1 of
                   None \<Rightarrow> (entryLog message0,
                             Inl (TypeError ''Cannot read properties of undefined (reading id)''))
                 | Some ch \<Rightarrow>
                     (let message = message1\<lparr> msg_isPingModerator := isPingModerator bt ch member \<rparr>
                      in andThen (entryLog message0, Inr ()) (\<lambda>_.
                           tryCatch
                             (tryCatch (dispatchBody X bt l message league' member allowedTypes)
                                       innerHandler)
                             (outerHandler ch)))))"

subsection \<open>Dispatch: \<^verbatim>\<open>processChessterMessage\<close>\<close>

definition mrScribblesText :: string where
  "mrScribblesText = ''Error processing message. Its probably MrScribbles'' @ [CHR 0x27]
                       @ '' fault. :sexy-glbert:''"

text \<open>
  \<^verbatim>\<open>processChessterMessage\<close> of the events-API utilities. The arguments \<open>rx\<close> and
  \<open>trim\<close> stand for the runtime's \<^verbatim>\<open>text.match(pattern)\<close> and \<^verbatim>\<open>String.prototype.trim\<close>;
  \<^verbatim>\<open>say\<close> posts to the channel of the event. A middleware function is a transform that
  may throw; the callback is awaited, so an exception of it is caught by the \<^verbatim>\<open>try\<close>.
  \<^verbatim>\<open>
  try {
      let normalizedText = isDirectMention && botUserId
          ? normalizeMessageText(text, botUserId) : text
      const chessterMessage = { type: 'message', user, channel,
                                text: normalizedText.trim(), ts, isPingModerator: false }
      const messageContext = determineMessageContext(channel, isDirectMention)
      app.logger.info(`Processing ${messageContext.type} message: ...`)
      const matchedListener = findMatchingListener(listeners, normalizedText, messageContext)
      if (matchedListener) {
          const { listener, matches } = matchedListener
          const commandMessage = { ...chessterMessage, matches }
          const processedMessage = applyMiddleware(commandMessage, listener.middleware)
          await listener.callback(processedMessage, say)
      }
  } catch (error) {
      app.logger.error(`Error processing message: ${error}`)
      await say("Error processing message. Its probably MrScribbles' fault. :sexy-glbert:")
  }
  \<close>
\<close>

definition processChessterMessage ::
  "('p \<Rightarrow> string \<Rightarrow> string list option) \<Rightarrow> (string \<Rightarrow> string) \<Rightarrow> string \<Rightarrow> string \<Rightarrow> SlackChannel
     \<Rightarrow> string \<Rightarrow> string option \<Rightarrow> bool
     \<Rightarrow> ('p, ChessterMessage \<Rightarrow> error + ChessterMessage, ChessterMessage \<Rightarrow> unit eff) listener list
     \<Rightarrow> unit eff" where
  "processChessterMessage rx trim txt user channel ts botUserId isDirectMention' listeners =
     tryCatch
       (let normalizedText =
              (case botUserId of
                 None \<Rightarrow> txt
               | Some b \<Rightarrow> if isDirectMention' \<and> b \<noteq> [] then normalizeMessageText txt b else txt);
            chessterMessage =
              \<lparr> msg_user = user, msg_channel = Some channel, msg_text = trim normalizedText,
                msg_member = Absent, msg_league = Undefined, msg_isModerator = None,
                msg_ts = ts, msg_isPingModerator = False, msg_matches = [] \<rparr>;
            messageContext' = determineMessageContext (Some channel) isDirectMention'
        in andThen (logged (LogInfo ''Processing message'')) (\<lambda>_.
             case findMatchingListener rx listeners normalizedText messageContext' of
               None \<Rightarrow> ([], Inr ())
             | Some (l, matches) \<Rightarrow>
                 andThen ([], applyMiddleware (chessterMessage\<lparr> msg_matches := matches \<rparr>)
                                              (middleware l))
                   (\<lambda>processedMessage.
                      case callback l processedMessage of
                        (ev, r) \<Rightarrow> (CallbackCalled processedMessage # ev, r))))
       (\<lambda>e. ([LogError ''Error processing message'', Say (ch_id channel) mrScribblesText], Inr ()))"

subsection \<open>Specification vocabulary for the entity index\<close>

text \<open>
  The records registered under an id key by a sequence of \<^verbatim>\<open>add\<close> calls, in the order
  of the calls: \<^verbatim>\<open>add\<close> registers an entity under its upper-cased id.
\<close>

definition idRegs :: "'r externals \<Rightarrow> SlackEntity list \<Rightarrow> string \<Rightarrow> SlackEntity list" where
  "idRegs X es k = filter (\<lambda>e. toUpperCase X (ent_id e) = k) es"

text \<open>
  The name keys under which \<^verbatim>\<open>add\<close> registers an entity: none for an entity whose id
  starts with \<^verbatim>\<open>D\<close> or that has no name; else its lower-cased name and its lower-cased
  lichess username, each only if not empty.
\<close>

fun keyOf :: "'r externals \<Rightarrow> string option \<Rightarrow> string list" where
  "keyOf X None = []"
| "keyOf X (Some s) = (if s \<noteq> [] then [toLowerCase X s] else [])"

definition nameKeys :: "'r externals \<Rightarrow> SlackEntity \<Rightarrow> string list" where
  "nameKeys X e =
     (if prefix ''D'' (ent_id e) \<or> ent_name e = None then []
      else keyOf X (ent_name e) @ keyOf X (lichess_username e))"

definition nameRegs :: "'r externals \<Rightarrow> SlackEntity list \<Rightarrow> string \<Rightarrow> SlackEntity list" where
  "nameRegs X es k =
     concat (map (\<lambda>e. map (\<lambda>_. e) (filter (\<lambda>key. key = k) (nameKeys X e))) es)"

text \<open>
  A primary map and its duplicates map track the registrations \<open>R\<close>: the duplicates entry
  of a key is the list of all its registrations (absent when there is none), and the
  primary entry is the last of them.
\<close>

definition tracks ::
  "(string \<rightharpoonup> SlackEntity) \<Rightarrow> (string \<rightharpoonup> SlackEntity list) \<Rightarrow> (string \<Rightarrow> SlackEntity list) \<Rightarrow> bool" where
  "tracks primary dups R =
     (\<forall>k. dups k = (if R k = [] then None else Some (R k))
         \<and> primary k = (if R k = [] then None else Some (last (R k))))"

definition indexOK :: "'r externals \<Rightarrow> SlackEntity list \<Rightarrow> SlackEntityLookup \<Rightarrow> bool" where
  "indexOK X es lk =
     (tracks (byId lk) (idDuplicates lk) (idRegs X es)
      \<and> tracks (byName lk) (nameDuplicates lk) (nameRegs X es))"

text \<open>
  No key under which \<^verbatim>\<open>add\<close> registers the entity is the name of a member of
  \<^verbatim>\<open>Object.prototype\<close>.
\<close>

definition plainKeys :: "'r externals \<Rightarrow> SlackEntity \<Rightarrow> bool" where
  "plainKeys X e =
     (toUpperCase X (ent_id e) \<notin> set objectPrototypeKeys
      \<and> (\<forall>k\<in>set (nameKeys X e). k \<notin> set objectPrototypeKeys))"

subsection \<open>Specification vocabulary for league resolution\<close>

text \<open>
  The league a key of the channel-binding map names: the key is bound to a league name,
  and \<^verbatim>\<open>league.getLeague\<close> knows a league of that name.
\<close>

definition boundLeague :: "'r externals \<Rightarrow> SlackBot \<Rightarrow> string \<Rightarrow> League option" where
  "boundLeague X bt key =
     (case channelMap bt key of
        None \<Rightarrow> None
      | Some target \<Rightarrow> leagueGetLeague X (Some target))"



subsection \<open>Example data\<close>

text \<open>A pattern that matches exactly one text, as \<^verbatim>\<open>/^help$/\<close> does.\<close>

definition exactMatch :: "string \<Rightarrow> string \<Rightarrow> string list option" where
  "exactMatch pattern t = (if pattern = t then Some [t] else None)"

definition helpListener :: "(string, unit, unit) listener" where
  "helpListener = \<lparr> listener_type = command, patterns = [''help''],
                    messageTypes = [direct_mention], middleware = None, callback = () \<rparr>"

definition sourceListener :: "(string, unit, unit) listener" where
  "sourceListener = \<lparr> listener_type = command, patterns = [''hello'', ''source''],
                      messageTypes = [direct_message], middleware = None, callback = () \<rparr>"

definition lateListener :: "(string, unit, unit) listener" where
  "lateListener = \<lparr> listener_type = command, patterns = [''source''],
                    messageTypes = [ambient, direct_message], middleware = None, callback = () \<rparr>"

definition dmContext :: contextFlags where
  "dmContext = \<lparr> isDirectMessage = True, isDirectMention = False, isAmbient = False,
                 isBotMessage = False \<rparr>"

text \<open>
  Collaborators for the examples: a fuzzy matcher that ranks the targets containing the
  query and takes all of them as best matches, two leagues, and case conversions that
  leave the (already normalised) example strings alone.
\<close>

definition league4545 :: League where
  "league4545 = \<lparr> league_name = ''45+45'', alsoKnownAs = [''team''] \<rparr>"

definition lonewolf :: League where
  "lonewolf = \<lparr> league_name = ''lonewolf'', alsoKnownAs = [''lone'', ''wolf''] \<rparr>"

definition X0 :: "string externals" where
  "X0 = \<lparr> rankChoices = (\<lambda>q choices. filter (\<lambda>c. q \<noteq> [] \<and> includesStr c q) choices),
          findBestMatches = (\<lambda>rs. rs),
          resultValue = (\<lambda>r. r),
          leagueGetLeague = (\<lambda>n. if n = Some ''45+45'' then Some league4545
                                  else if n = Some ''lonewolf'' then Some lonewolf else None),
          getAllLeagues = [league4545, lonewolf],
          isModerator = (\<lambda>l u. u = Some ''mod1''),
          toLowerCase = (\<lambda>s. s),
          toUpperCase = (\<lambda>s. s) \<rparr>"

definition alice :: SlackEntity where
  "alice = \<lparr> ent_id = ''U1'', ent_name = Some ''alice'', lichess_username = Some ''alice1'' \<rparr>"

definition alice2 :: SlackEntity where
  "alice2 = \<lparr> ent_id = ''U1'', ent_name = Some ''alice'', lichess_username = Some ''alice2'' \<rparr>"

definition builder :: SlackEntity where
  "builder = \<lparr> ent_id = ''U2'', ent_name = Some ''constructor'', lichess_username = None \<rparr>"

definition users0 :: SlackEntityLookup where
  "users0 = newLookup\<lparr> byId := [''U1'' \<mapsto> alice], idDuplicates := [''U1'' \<mapsto> [alice]],
                       byName := [''alice'' \<mapsto> alice], nameDuplicates := [''alice'' \<mapsto> [alice]] \<rparr>"

definition bot0 :: SlackBot where
  "bot0 = \<lparr> channelMap = [''C1'' \<mapsto> ''45+45''], pingMods = Map.empty, users = users0 \<rparr>"

definition boundChannel :: SlackChannel where
  "boundChannel = \<lparr> is_im = None, is_group = None, ch_id = ''C1'', ch_name = Some ''dev'' \<rparr>"

definition unboundChannel :: SlackChannel where
  "unboundChannel = \<lparr> is_im = None, is_group = None, ch_id = ''C9'', ch_name = Some ''random'' \<rparr>"

definition mkMessage :: "string \<Rightarrow> SlackChannel \<Rightarrow> string \<Rightarrow> ChessterMessage" where
  "mkMessage user ch txt =
     \<lparr> msg_user = user, msg_channel = Some ch, msg_text = txt, msg_member = Absent,
       msg_league = Undefined, msg_isModerator = None, msg_ts = ''1.0'',
       msg_isPingModerator = False, msg_matches = [txt] \<rparr>"

definition okCallback :: CallbackFn where
  "okCallback bt message = ([], Inr ())"

definition throwingCallback :: CallbackFn where
  "throwingCallback bt message = ([], Inl (Error ''boom''))"

definition pairingsListener :: "(string, MiddlewareFn, CallbackFn) listener" where
  "pairingsListener = \<lparr> listener_type = league_command, patterns = [''pairings''],
                        messageTypes = [ambient], middleware = None, callback = okCallback \<rparr>"

definition plainListener :: "(string, MiddlewareFn, CallbackFn) listener" where
  "plainListener = \<lparr> listener_type = command, patterns = [''pairings''],
                     messageTypes = [ambient], middleware = None, callback = okCallback \<rparr>"

definition faultyListener :: "(string, MiddlewareFn, CallbackFn) listener" where
  "faultyListener = \<lparr> listener_type = command, patterns = [''crash''],
                      messageTypes = [ambient], middleware = None, callback = throwingCallback \<rparr>"

definition faultyUtilListener ::
  "(string, ChessterMessage \<Rightarrow> error + ChessterMessage, ChessterMessage \<Rightarrow> unit eff) listener" where
  "faultyUtilListener = \<lparr> listener_type = command, patterns = [''crash''],
                          messageTypes = [ambient], middleware = None,
                          callback = (\<lambda>message. ([], Inl (Error ''boom''))) \<rparr>"

section \<open>Properties\<close>

lemma applyMiddlewareLoop_total:
  "applyMiddlewareLoop m (map pureMiddleware fs) = Inr (composeAll fs m)"
  by (induction fs arbitrary: m) (simp_all add: pureMiddleware_def)

text \<open>
  Claim C10. \<^verbatim>\<open>applyMiddleware\<close> returns the message unchanged when the middleware is
  \<^verbatim>\<open>undefined\<close> or the empty list, and for a list of transforms it returns the
  left-to-right composition of the transforms applied to the message.
\<close>

theorem applyMiddleware_composition:
  "applyMiddleware m None = Inr m
   \<and> applyMiddleware m (Some []) = Inr m
   \<and> applyMiddleware m (Some (map pureMiddleware fs)) = Inr (composeAll fs m)"
proof -
  have "applyMiddleware m (Some (map pureMiddleware fs)) = Inr (composeAll fs m)"
    using applyMiddlewareLoop_total [of m fs]
    by (cases fs) (simp_all add: applyMiddleware_def)
  then show ?thesis
    by (simp add: applyMiddleware_def)
qed


subsection \<open>Context classifier\<close>

lemma flagCount_determineMessageContext:
  "flagCount (determineMessageContext channel m) =
     (if m \<and> orFalse (optChain channel is_im) \<and> \<not> orFalse (optChain channel is_group)
      then 2 else 1)"
  by (simp add: flagCount_def determineMessageContext_def Let_def)

text \<open>
  Claim C2, as stated, fails: a message with the mention flag set in a channel with
  \<^verbatim>\<open>is_im\<close> true and \<^verbatim>\<open>is_group\<close> false has both \<^verbatim>\<open>isDirectMessage\<close> and
  \<^verbatim>\<open>isDirectMention\<close> true, so two category flags are set.
\<close>

theorem determineMessageContext_two_flags:
  "isDirectMention (determineMessageContext (Some \<lparr>is_im = Some True, is_group = Some False\<rparr>) True)
   \<and> isDirectMessage (determineMessageContext (Some \<lparr>is_im = Some True, is_group = Some False\<rparr>) True)
   \<and> flagCount (determineMessageContext (Some \<lparr>is_im = Some True, is_group = Some False\<rparr>) True) \<noteq> 1"
  by (simp add: flagCount_def determineMessageContext_def)

text \<open>
  Claim C2, amended. For every channel (present or absent, with each flag present or
  absent) and every mention flag: the label \<^verbatim>\<open>type\<close> is \<^verbatim>\<open>mention\<close> when the mention
  flag is set, else \<^verbatim>\<open>DM\<close> when \<^verbatim>\<open>is_im\<close> holds and \<^verbatim>\<open>is_group\<close> does not, else
  \<^verbatim>\<open>ambient\<close>; \<^verbatim>\<open>isBotMessage\<close> is false; \<^verbatim>\<open>isAmbient\<close> is set exactly when neither
  of \<^verbatim>\<open>isDirectMessage\<close> and \<^verbatim>\<open>isDirectMention\<close> is; at least one flag is set; and
  exactly one flag is set, except for a mention in an \<^verbatim>\<open>is_im\<close>, non-\<^verbatim>\<open>is_group\<close>
  channel, where exactly the two flags \<^verbatim>\<open>isDirectMessage\<close> and \<^verbatim>\<open>isDirectMention\<close> are.
\<close>

theorem determineMessageContext_flags:
  "isDirectMention (determineMessageContext channel m) = m
   \<and> isDirectMessage (determineMessageContext channel m) =
       (orFalse (optChain channel is_im) \<and> \<not> orFalse (optChain channel is_group))
   \<and> isAmbient (determineMessageContext channel m) =
       (\<not> isDirectMention (determineMessageContext channel m)
        \<and> \<not> isDirectMessage (determineMessageContext channel m))
   \<and> isBotMessage (determineMessageContext channel m) = False
   \<and> ctx_type (determineMessageContext channel m) =
       (if m then mention_type
        else if isDirectMessage (determineMessageContext channel m) then DM_type
        else ambient_type)
   \<and> 1 \<le> flagCount (determineMessageContext channel m)
   \<and> (flagCount (determineMessageContext channel m) = 1) =
       (\<not> (isDirectMention (determineMessageContext channel m)
            \<and> isDirectMessage (determineMessageContext channel m)))"
  by (simp add: flagCount_determineMessageContext)
     (auto simp add: determineMessageContext_def Let_def)

subsection \<open>Normalisation of the message text\<close>

lemma mention_not_empty: "mention b \<noteq> []"
  by (simp add: mention_def)

lemma includesStr_prefix: "includesStr s (p @ q) \<Longrightarrow> includesStr s p"
  by (induction s) (auto dest: append_prefixD)

lemma replace_absent: "pat \<noteq> [] \<Longrightarrow> \<not> includesStr s pat \<Longrightarrow> replace pat [] s = s"
  by (induction s) auto

lemma replace_shorter:
  assumes "pat \<noteq> []"
  shows "includesStr s pat \<Longrightarrow> length (replace pat [] s) < length s"
proof -
  from assms obtain n where "length pat = Suc n"
    by (cases pat) auto
  then show "includesStr s pat \<Longrightarrow> length (replace pat [] s) < length s"
    using assms by (induction s) (auto simp: less_Suc_eq_le)
qed

lemma replace_length_le: "length (replace pat [] s) \<le> length s"
  by (induction s) auto

lemma normalizeMessageText_fixed:
  "(normalizeMessageText r b = r) = (\<not> includesStr r (mention b))"
proof (cases "includesStr r (mention b)")
  case False
  then have "\<not> includesStr r (mention b @ '' '')"
    using includesStr_prefix by blast
  with False show ?thesis
    by (simp add: normalizeMessageText_def replace_absent mention_not_empty)
next
  case True
  have "length (normalizeMessageText r b) < length r"
  proof (cases "includesStr r (mention b @ '' '')")
    case True
    then have "length (replace (mention b @ '' '') [] r) < length r"
      by (simp add: replace_shorter)
    moreover have "length (normalizeMessageText r b) \<le> length (replace (mention b @ '' '') [] r)"
      by (simp add: normalizeMessageText_def replace_length_le)
    ultimately show ?thesis by simp
  next
    case False
    then have "replace (mention b @ '' '') [] r = r"
      by (simp add: replace_absent)
    with True show ?thesis
      by (simp add: normalizeMessageText_def replace_shorter mention_not_empty)
  qed
  with True show ?thesis by auto
qed

text \<open>
  The texts that \<^verbatim>\<open>normalizeMessageText\<close> leaves unchanged are the texts without the
  mention markup \<^verbatim>\<open><@botId>\<close>; so a second application changes the result of the first
  exactly when the first has left a mention behind.
\<close>

lemma normalizeMessageText_idempotent_iff:
  "(normalizeMessageText (normalizeMessageText t b) b = normalizeMessageText t b)
     = (\<not> includesStr (normalizeMessageText t b) (mention b))
   \<and> (normalizeMessageText t b = t) = (\<not> includesStr t (mention b))"
  by (simp add: normalizeMessageText_fixed)

text \<open>
  Claim C9 at the text \<^verbatim>\<open><@U1>,<@U1>!\<close> and the bot id \<^verbatim>\<open>U1\<close>. Each of the two
  \<^verbatim>\<open>replace\<close> calls has a string pattern and so removes one occurrence only: the first
  normalisation leaves the second mention in the text, and a second normalisation removes
  it. The two results differ, so normalisation is not idempotent at this text.
\<close>

theorem normalizeMessageText_not_idempotent:
  "normalizeMessageText ''<@U1>,<@U1>!'' ''U1'' = '',<@U1>!''
   \<and> normalizeMessageText (normalizeMessageText ''<@U1>,<@U1>!'' ''U1'') ''U1'' = '',!''
   \<and> normalizeMessageText (normalizeMessageText ''<@U1>,<@U1>!'' ''U1'') ''U1''
       \<noteq> normalizeMessageText ''<@U1>,<@U1>!'' ''U1''"
  by (simp add: normalizeMessageText_def mention_def)

subsection \<open>Listener matching\<close>

lemma matchPatterns_None:
  "(matchPatterns rx ps t = None) = (\<forall>p\<in>set ps. rx p t = None)"
  by (induction ps) (auto split: option.splits)

lemma matchPatterns_Some:
  "matchPatterns rx ps t = Some m \<Longrightarrow>
     \<exists>j<length ps. rx (ps ! j) t = Some m \<and> (\<forall>j'<j. rx (ps ! j') t = None)"
proof (induction ps)
  case Nil
  then show ?case by simp
next
  case (Cons p ps)
  show ?case
  proof (cases "rx p t")
    case (Some m')
    with Cons.prems have "rx ((p # ps) ! 0) t = Some m" by simp
    then show ?thesis by (intro exI [of _ 0]) simp
  next
    case None
    with Cons obtain j where j: "j < length ps" "rx (ps ! j) t = Some m"
      "\<forall>j'<j. rx (ps ! j') t = None" by auto
    have "\<forall>j'<Suc j. rx ((p # ps) ! j') t = None"
      using j(3) None by (auto simp: less_Suc_eq_0_disj)
    with j show ?thesis by (intro exI [of _ "Suc j"]) simp
  qed
qed

lemma matchPatterns_SomeD:
  "matchPatterns rx ps t = Some m \<Longrightarrow> \<exists>p\<in>set ps. \<exists>y. rx p t = Some y"
  using matchPatterns_None [of rx ps t] by auto

lemma findMatchingListener_None:
  "(findMatchingListener rx L t ctx = None) =
     (\<forall>l\<in>set L. doesListenerWantMessageType l ctx \<longrightarrow> (\<forall>p\<in>set (patterns l). rx p t = None))"
  by (induction L) (auto simp: matchPatterns_None dest: matchPatterns_SomeD split: option.splits)

lemma findMatchingListener_Some:
  "findMatchingListener rx L t ctx = Some (l, m) \<Longrightarrow>
     \<exists>i<length L. L ! i = l \<and> doesListenerWantMessageType l ctx
        \<and> matchPatterns rx (patterns l) t = Some m
        \<and> (\<forall>i'<i. \<not> doesListenerWantMessageType (L ! i') ctx
                     \<or> matchPatterns rx (patterns (L ! i')) t = None)"
proof (induction L)
  case Nil
  then show ?case by simp
next
  case (Cons a L)
  show ?case
  proof (cases "doesListenerWantMessageType a ctx \<and> matchPatterns rx (patterns a) t \<noteq> None")
    case True
    with Cons.prems have "a = l" "matchPatterns rx (patterns l) t = Some m"
      by (auto split: option.splits)
    with True show ?thesis by (intro exI [of _ 0]) simp
  next
    case False
    with Cons.prems have "findMatchingListener rx L t ctx = Some (l, m)"
      by (auto split: option.splits if_splits)
    with Cons.IH obtain i where i: "i < length L" "L ! i = l"
      "doesListenerWantMessageType l ctx" "matchPatterns rx (patterns l) t = Some m"
      "\<forall>i'<i. \<not> doesListenerWantMessageType (L ! i') ctx
                  \<or> matchPatterns rx (patterns (L ! i')) t = None" by auto
    have "\<forall>i'<Suc i. \<not> doesListenerWantMessageType ((a # L) ! i') ctx
                  \<or> matchPatterns rx (patterns ((a # L) ! i')) t = None"
      using i(5) False by (auto simp: less_Suc_eq_0_disj)
    with i show ?thesis by (intro exI [of _ "Suc i"]) simp
  qed
qed

lemma doesListenerWantMessageType_category:
  "doesListenerWantMessageType l ctx = (\<exists>c\<in>set (messageTypes l). categoryFlag ctx c)"
proof
  assume "doesListenerWantMessageType l ctx"
  then show "\<exists>c\<in>set (messageTypes l). categoryFlag ctx c"
    unfolding doesListenerWantMessageType_def
    by (metis categoryFlag.simps)
next
  assume "\<exists>c\<in>set (messageTypes l). categoryFlag ctx c"
  moreover have "c \<in> set (messageTypes l) \<Longrightarrow> categoryFlag ctx c
      \<Longrightarrow> doesListenerWantMessageType l ctx" for c
    by (cases c) (auto simp: doesListenerWantMessageType_def)
  ultimately show "doesListenerWantMessageType l ctx" by blast
qed

lemma doesListenerWantMessageType_single:
  "flagCount ctx = 1 \<Longrightarrow> categoryFlag ctx c \<Longrightarrow>
     doesListenerWantMessageType l ctx = (c \<in> set (messageTypes l))"
  by (cases c) (auto simp: flagCount_def doesListenerWantMessageType_def split: if_splits)

text \<open>
  Claim C1. A listener accepts the context when one of its message types is a category
  whose flag is set in the context; for a context with exactly one flag set, that is: when
  its message types include the category of the context. \<^verbatim>\<open>findMatchingListener\<close>
  returns \<^verbatim>\<open>null\<close> exactly when no accepting listener has a matching pattern. Otherwise
  it returns the listener at the least position \<open>i\<close> of the list that accepts the context
  and has a matching pattern, with the match array of the pattern at the least position
  \<open>j\<close> of that listener's patterns that matches: no pattern before \<open>j\<close> matches, and no
  listener before \<open>i\<close> both accepts the context and has a matching pattern.
\<close>

theorem findMatchingListener_first_match:
  "(\<forall>l :: ('p, 'mw, 'cb) listener.
       doesListenerWantMessageType l ctx = (\<exists>c\<in>set (messageTypes l). categoryFlag ctx c))
   \<and> (\<forall>(l :: ('p, 'mw, 'cb) listener) c. flagCount ctx = 1 \<and> categoryFlag ctx c \<longrightarrow>
         doesListenerWantMessageType l ctx = (c \<in> set (messageTypes l)))
   \<and> ((findMatchingListener rx (L :: ('p, 'mw, 'cb) listener list) t ctx = None) =
        (\<forall>l\<in>set L. doesListenerWantMessageType l ctx \<longrightarrow> (\<forall>p\<in>set (patterns l). rx p t = None)))
   \<and> (\<forall>l m. findMatchingListener rx L t ctx = Some (l, m) \<longrightarrow>
        (\<exists>i j. i < length L \<and> L ! i = l \<and> doesListenerWantMessageType l ctx
           \<and> j < length (patterns l) \<and> rx (patterns l ! j) t = Some m
           \<and> (\<forall>j'<j. rx (patterns l ! j') t = None)
           \<and> (\<forall>i'<i. \<not> doesListenerWantMessageType (L ! i') ctx
                        \<or> (\<forall>p\<in>set (patterns (L ! i')). rx p t = None))))"
proof (intro conjI allI impI)
  fix l :: "('p, 'mw, 'cb) listener"
  show "doesListenerWantMessageType l ctx = (\<exists>c\<in>set (messageTypes l). categoryFlag ctx c)"
    by (rule doesListenerWantMessageType_category)
next
  fix l :: "('p, 'mw, 'cb) listener" and c
  assume "flagCount ctx = 1 \<and> categoryFlag ctx c"
  then show "doesListenerWantMessageType l ctx = (c \<in> set (messageTypes l))"
    by (simp add: doesListenerWantMessageType_single)
next
  show "(findMatchingListener rx L t ctx = None) =
        (\<forall>l\<in>set L. doesListenerWantMessageType l ctx \<longrightarrow> (\<forall>p\<in>set (patterns l). rx p t = None))"
    by (rule findMatchingListener_None)
next
  fix l m
  assume "findMatchingListener rx L t ctx = Some (l, m)"
  from findMatchingListener_Some [OF this] obtain i where i: "i < length L" "L ! i = l"
    "doesListenerWantMessageType l ctx" "matchPatterns rx (patterns l) t = Some m"
    "\<forall>i'<i. \<not> doesListenerWantMessageType (L ! i') ctx
                \<or> matchPatterns rx (patterns (L ! i')) t = None" by blast
  from matchPatterns_Some [OF i(4)] obtain j where j: "j < length (patterns l)"
    "rx (patterns l ! j) t = Some m" "\<forall>j'<j. rx (patterns l ! j') t = None" by blast
  from i(5) have "\<forall>i'<i. \<not> doesListenerWantMessageType (L ! i') ctx
                        \<or> (\<forall>p\<in>set (patterns (L ! i')). rx p t = None)"
    by (simp add: matchPatterns_None)
  with i j show "\<exists>i j. i < length L \<and> L ! i = l \<and> doesListenerWantMessageType l ctx
           \<and> j < length (patterns l) \<and> rx (patterns l ! j) t = Some m
           \<and> (\<forall>j'<j. rx (patterns l ! j') t = None)
           \<and> (\<forall>i'<i. \<not> doesListenerWantMessageType (L ! i') ctx
                        \<or> (\<forall>p\<in>set (patterns (L ! i')). rx p t = None))"
    by blast
qed


text \<open>An instance of claim C1: three listeners, a direct message with the text \<^verbatim>\<open>source\<close>.\<close>

theorem findMatchingListener_first_match_witness:
  "findMatchingListener exactMatch [helpListener, sourceListener, lateListener] ''source'' dmContext
     = Some (sourceListener, [''source''])
   \<and> (\<exists>i j. i < length [helpListener, sourceListener, lateListener]
         \<and> [helpListener, sourceListener, lateListener] ! i = sourceListener
         \<and> doesListenerWantMessageType sourceListener dmContext
         \<and> j < length (patterns sourceListener)
         \<and> exactMatch (patterns sourceListener ! j) ''source'' = Some [''source'']
         \<and> (\<forall>j'<j. exactMatch (patterns sourceListener ! j') ''source'' = None)
         \<and> (\<forall>i'<i. \<not> doesListenerWantMessageType ([helpListener, sourceListener, lateListener] ! i') dmContext
               \<or> (\<forall>p\<in>set (patterns ([helpListener, sourceListener, lateListener] ! i')).
                     exactMatch p ''source'' = None)))
   \<and> findMatchingListener exactMatch [helpListener, sourceListener, lateListener] ''pairings'' dmContext
       = None"
proof -
  have r: "findMatchingListener exactMatch [helpListener, sourceListener, lateListener] ''source'' dmContext
     = Some (sourceListener, [''source''])"
    by (simp add: doesListenerWantMessageType_def exactMatch_def helpListener_def
        sourceListener_def lateListener_def dmContext_def)
  have n: "findMatchingListener exactMatch [helpListener, sourceListener, lateListener] ''pairings'' dmContext
       = None"
    by (simp add: doesListenerWantMessageType_def exactMatch_def helpListener_def
        sourceListener_def lateListener_def dmContext_def)
  from findMatchingListener_first_match
    [where rx = exactMatch and L = "[helpListener, sourceListener, lateListener]"
       and t = "''source''" and ctx = dmContext]
  have "\<forall>l m. findMatchingListener exactMatch [helpListener, sourceListener, lateListener] ''source'' dmContext
           = Some (l, m) \<longrightarrow>
        (\<exists>i j. i < length [helpListener, sourceListener, lateListener]
           \<and> [helpListener, sourceListener, lateListener] ! i = l
           \<and> doesListenerWantMessageType l dmContext
           \<and> j < length (patterns l) \<and> exactMatch (patterns l ! j) ''source'' = Some m
           \<and> (\<forall>j'<j. exactMatch (patterns l ! j') ''source'' = None)
           \<and> (\<forall>i'<i. \<not> doesListenerWantMessageType ([helpListener, sourceListener, lateListener] ! i') dmContext
                        \<or> (\<forall>p\<in>set (patterns ([helpListener, sourceListener, lateListener] ! i')).
                              exactMatch p ''source'' = None)))"
    by blast
  with r n show ?thesis by blast
qed

subsection \<open>Entity index\<close>

lemma getProp_plain:
  "k \<notin> set objectPrototypeKeys \<Longrightarrow>
     getProp obj k = (case obj k of None \<Rightarrow> Absent | Some v \<Rightarrow> Own v)"
  by (simp add: getProp_def split: option.splits)

lemma setProp_plain: "k \<notin> set objectPrototypeKeys \<Longrightarrow> setProp obj k v = obj(k \<mapsto> v)"
  by (auto simp: setProp_def objectPrototypeKeys_def)

lemma addAll_append:
  "addAll X (es @ fs) lk = (case addAll X es lk of Inl e \<Rightarrow> Inl e | Inr lk' \<Rightarrow> addAll X fs lk')"
  by (induction es arbitrary: lk) (auto split: sum.splits)

lemma addByNameWithDuplicate_tracks:
  assumes "tracks (byName lk) (nameDuplicates lk) R" and "key \<notin> set objectPrototypeKeys"
  shows "\<exists>lk'. addByNameWithDuplicate key e lk = Inr lk'
           \<and> idDuplicates lk' = idDuplicates lk \<and> byId lk' = byId lk
           \<and> tracks (byName lk') (nameDuplicates lk') (R(key := R key @ [e]))"
  using assms(1)
  by (auto simp: addByNameWithDuplicate_def tracks_def getProp_plain [OF assms(2)]
      setProp_plain [OF assms(2)] split: option.splits)

lemma addByIdWithDuplicate_tracks:
  assumes "tracks (byId lk) (idDuplicates lk) R" and "key \<notin> set objectPrototypeKeys"
  shows "\<exists>lk'. addByIdWithDuplicate key e lk = Inr lk'
           \<and> nameDuplicates lk' = nameDuplicates lk \<and> byName lk' = byName lk
           \<and> tracks (byId lk') (idDuplicates lk') (R(key := R key @ [e]))"
  using assms(1)
  by (auto simp: addByIdWithDuplicate_def tracks_def getProp_plain [OF assms(2)]
      setProp_plain [OF assms(2)] split: option.splits)

lemma addNameKey_tracks:
  assumes "tracks (byName lk) (nameDuplicates lk) R"
    and "\<forall>k\<in>set (keyOf X key). k \<notin> set objectPrototypeKeys"
  shows "\<exists>lk'. addNameKey X key e lk = Inr lk'
           \<and> idDuplicates lk' = idDuplicates lk \<and> byId lk' = byId lk
           \<and> tracks (byName lk') (nameDuplicates lk')
                (\<lambda>k. R k @ map (\<lambda>_. e) (filter (\<lambda>key. key = k) (keyOf X key)))"
proof (cases "truthyStr key")
  case False
  then have "addNameKey X key e lk = Inr lk" "keyOf X key = []"
    by (cases key; simp add: addNameKey_def)+
  with assms(1) show ?thesis by simp
next
  case True
  then obtain s where s: "key = Some s" "s \<noteq> []" by (cases key) auto
  with assms(2) have "toLowerCase X s \<notin> set objectPrototypeKeys" by simp
  from addByNameWithDuplicate_tracks [OF assms(1) this, of e] obtain lk' where
    "addByNameWithDuplicate (toLowerCase X s) e lk = Inr lk'"
    "idDuplicates lk' = idDuplicates lk" "byId lk' = byId lk"
    "tracks (byName lk') (nameDuplicates lk') (R(toLowerCase X s := R (toLowerCase X s) @ [e]))"
    by blast
  moreover have "(\<lambda>k. R k @ map (\<lambda>_. e) (filter (\<lambda>key. key = k) (keyOf X key)))
      = R(toLowerCase X s := R (toLowerCase X s) @ [e])"
    using s by auto
  ultimately show ?thesis using s by (simp add: addNameKey_def)
qed

lemma add_ok:
  assumes "indexOK X es lk" and "plainKeys X e"
  shows "\<exists>lk'. add X e lk = Inr lk' \<and> indexOK X (es @ [e]) lk'"
proof -
  from assms(1) have a: "tracks (byId lk) (idDuplicates lk) (idRegs X es)"
    and b: "tracks (byName lk) (nameDuplicates lk) (nameRegs X es)"
    by (simp_all add: indexOK_def)
  from assms(2) have pid: "toUpperCase X (ent_id e) \<notin> set objectPrototypeKeys"
    by (simp add: plainKeys_def)
  have idR: "(idRegs X es)(toUpperCase X (ent_id e) := idRegs X es (toUpperCase X (ent_id e)) @ [e])
      = idRegs X (es @ [e])"
    by (auto simp: idRegs_def)
  from addByIdWithDuplicate_tracks [OF a pid, of e] obtain lk1 where
    1: "addByIdWithDuplicate (toUpperCase X (ent_id e)) e lk = Inr lk1"
       "nameDuplicates lk1 = nameDuplicates lk" "byName lk1 = byName lk"
       "tracks (byId lk1) (idDuplicates lk1) (idRegs X (es @ [e]))"
    unfolding idR by blast
  have b1: "tracks (byName lk1) (nameDuplicates lk1) (nameRegs X es)"
    using b 1 by simp
  show ?thesis
  proof (cases "prefix ''D'' (ent_id e) \<or> ent_name e = None")
    case True
    then have "nameRegs X (es @ [e]) = nameRegs X es"
      by (auto simp: nameRegs_def nameKeys_def)
    with b1 1 True show ?thesis
      by (auto simp: add_def indexOK_def)
  next
    case False
    with assms(2) have pn: "\<forall>k\<in>set (keyOf X (ent_name e)). k \<notin> set objectPrototypeKeys"
      and pl: "\<forall>k\<in>set (keyOf X (lichess_username e)). k \<notin> set objectPrototypeKeys"
      by (auto simp: plainKeys_def nameKeys_def)
    from addNameKey_tracks [OF b1 pn, of e] obtain lk2 where
      2: "addNameKey X (ent_name e) e lk1 = Inr lk2" "idDuplicates lk2 = idDuplicates lk1"
         "byId lk2 = byId lk1"
         "tracks (byName lk2) (nameDuplicates lk2)
            (\<lambda>k. nameRegs X es k @ map (\<lambda>_. e) (filter (\<lambda>key. key = k) (keyOf X (ent_name e))))"
      by blast
    from addNameKey_tracks [OF 2(4) pl, of e] obtain lk3 where
      3: "addNameKey X (lichess_username e) e lk2 = Inr lk3" "idDuplicates lk3 = idDuplicates lk2"
         "byId lk3 = byId lk2"
         "tracks (byName lk3) (nameDuplicates lk3)
            (\<lambda>k. (nameRegs X es k @ map (\<lambda>_. e) (filter (\<lambda>key. key = k) (keyOf X (ent_name e))))
                  @ map (\<lambda>_. e) (filter (\<lambda>key. key = k) (keyOf X (lichess_username e))))"
      by blast
    from False have "nameRegs X (es @ [e]) =
      (\<lambda>k. (nameRegs X es k @ map (\<lambda>_. e) (filter (\<lambda>key. key = k) (keyOf X (ent_name e))))
                @ map (\<lambda>_. e) (filter (\<lambda>key. key = k) (keyOf X (lichess_username e))))"
      by (auto simp: nameRegs_def nameKeys_def)
    with 1 2 3 False show ?thesis
      by (auto simp: add_def indexOK_def)
  qed
qed

lemma addAll_ok:
  "\<forall>e\<in>set es. plainKeys X e \<Longrightarrow> \<exists>lk. addAll X es newLookup = Inr lk \<and> indexOK X es lk"
proof (induction es rule: rev_induct)
  case Nil
  show ?case by (simp add: indexOK_def tracks_def idRegs_def nameRegs_def newLookup_def)
next
  case (snoc e es)
  then obtain lk where "addAll X es newLookup = Inr lk" "indexOK X es lk" by auto
  moreover from snoc.prems have "plainKeys X e" by simp
  ultimately show ?case
    using add_ok [of X es lk e] by (auto simp: addAll_append split: sum.splits)
qed

lemmas index_defs = add_def addByIdWithDuplicate_def addByNameWithDuplicate_def addNameKey_def
  getIdDuplicates_def getProp_def setProp_def objectPrototypeKeys_def newLookup_def

text \<open>
  An entity whose name is the name of a member of \<^verbatim>\<open>Object.prototype\<close>: on a new index
  \<^verbatim>\<open>isDefined(this.byName['constructor'])\<close> holds, and \<^verbatim>\<open>push\<close> on the inherited member
  throws.
\<close>

lemma add_inherited_name_throws:
  "add X0 builder newLookup = Inl (TypeError ''this.nameDuplicates[key].push is not a function'')"
  by (simp add: index_defs X0_def builder_def)

text \<open>
  Claim C8, as stated, fails: after a single \<^verbatim>\<open>add\<close> the duplicates entry of the id is
  already non-empty (it holds the one record), although only one record was registered
  under that id.
\<close>

theorem single_add_fills_duplicates:
  "map_sum (\<lambda>e. e) (\<lambda>lk. (getIdDuplicates X0 lk ''U1'', byId lk ''U1'')) (addAll X0 [alice] newLookup)
     = Inr (Own [alice], Some alice)
   \<and> length (idRegs X0 [alice] ''U1'') = 1"
  by (simp add: index_defs X0_def alice_def idRegs_def)

text \<open>
  Claim C8, amended. Take a sequence of \<^verbatim>\<open>add\<close> calls on a new index in which no
  record is registered under the name of a member of \<^verbatim>\<open>Object.prototype\<close> (such as
  \<^verbatim>\<open>constructor\<close> or \<^verbatim>\<open>__proto__\<close>). Every call succeeds, and afterwards, for every key
  \<open>k\<close>, the duplicates entry of \<open>k\<close> is the list of all records registered under \<open>k\<close>, in
  the order of registration: it is absent when no record was registered under \<open>k\<close> and
  non-empty as soon as one was (its length is the number of registrations, so it has two
  or more elements exactly when two or more registrations were made). The primary entry
  of \<open>k\<close> is the record registered last under \<open>k\<close>. This holds for the id maps and for the
  name maps; for an id that does not upper-case to such a member name,
  \<^verbatim>\<open>getIdDuplicates\<close> returns the list, and the empty list when there is none.
\<close>

theorem addAll_tracks_registrations:
  assumes "\<forall>e\<in>set es. plainKeys X e"
  shows "\<exists>lk. addAll X es newLookup = Inr lk
     \<and> (\<forall>k. idDuplicates lk k = (if idRegs X es k = [] then None else Some (idRegs X es k)))
     \<and> (\<forall>k. byId lk k = (if idRegs X es k = [] then None else Some (last (idRegs X es k))))
     \<and> (\<forall>k. nameDuplicates lk k = (if nameRegs X es k = [] then None else Some (nameRegs X es k)))
     \<and> (\<forall>k. byName lk k = (if nameRegs X es k = [] then None else Some (last (nameRegs X es k))))
     \<and> (\<forall>i. toUpperCase X i \<notin> set objectPrototypeKeys \<longrightarrow>
           getIdDuplicates X lk i = Own (idRegs X es (toUpperCase X i))
           \<and> idDuplicateCount X lk i = Own (length (idRegs X es (toUpperCase X i))))"
proof -
  from addAll_ok [OF assms] obtain lk where lk: "addAll X es newLookup = Inr lk" "indexOK X es lk"
    by blast
  from lk(2) have "\<forall>i. toUpperCase X i \<notin> set objectPrototypeKeys \<longrightarrow>
           getIdDuplicates X lk i = Own (idRegs X es (toUpperCase X i))
           \<and> idDuplicateCount X lk i = Own (length (idRegs X es (toUpperCase X i)))"
    by (simp add: getIdDuplicates_def idDuplicateCount_def indexOK_def tracks_def getProp_plain)
  with lk show ?thesis
    by (simp add: indexOK_def tracks_def)
qed

text \<open>
  An instance of claim C8 as amended: two records with the id \<^verbatim>\<open>U1\<close>, added one after
  the other.
\<close>

theorem addAll_tracks_registrations_witness:
  "map_sum (\<lambda>e. e) (\<lambda>lk. (getIdDuplicates X0 lk ''U1'', byId lk ''U1''))
     (addAll X0 [alice, alice2] newLookup)
     = Inr (Own [alice, alice2], Some alice2)"
proof -
  have p: "\<forall>e\<in>set [alice, alice2]. plainKeys X0 e"
    by (simp add: plainKeys_def nameKeys_def objectPrototypeKeys_def X0_def alice_def alice2_def)
  have u: "toUpperCase X0 ''U1'' \<notin> set objectPrototypeKeys" "toUpperCase X0 ''U1'' = ''U1''"
    by (simp_all add: objectPrototypeKeys_def X0_def)
  from addAll_tracks_registrations [OF p] obtain lk where
    lk: "addAll X0 [alice, alice2] newLookup = Inr lk"
    "\<forall>k. byId lk k = (if idRegs X0 [alice, alice2] k = [] then None
                       else Some (last (idRegs X0 [alice, alice2] k)))"
    "\<forall>i. toUpperCase X0 i \<notin> set objectPrototypeKeys \<longrightarrow>
           getIdDuplicates X0 lk i = Own (idRegs X0 [alice, alice2] (toUpperCase X0 i))
           \<and> idDuplicateCount X0 lk i = Own (length (idRegs X0 [alice, alice2] (toUpperCase X0 i)))"
    by blast
  have r: "idRegs X0 [alice, alice2] ''U1'' = [alice, alice2]"
    by (simp add: idRegs_def X0_def alice_def alice2_def)
  from lk(3) u have "getIdDuplicates X0 lk ''U1'' = Own (idRegs X0 [alice, alice2] ''U1'')"
    by metis
  moreover from lk(2) have "byId lk ''U1'' = Some alice2"
    by (simp add: r)
  ultimately show ?thesis
    using lk(1) r by simp
qed

subsection \<open>League resolution\<close>






lemma findLeagueByMessageText_league:
  "findLeagueByMessageText X (m\<lparr> msg_league := v \<rparr>) = findLeagueByMessageText X m"
  by (simp add: findLeagueByMessageText_def bestMatches_def)

lemma getLeague_by_name:
  "leagueByChannelName X bt (msg_channel m) = Some l \<Longrightarrow>
     getLeague X bt m co = (Inr (Some l), m\<lparr> msg_league := Defined l \<rparr>)"
  by (simp add: getLeague_def)

lemma getLeague_by_id:
  "leagueByChannelName X bt (msg_channel m) = None \<Longrightarrow>
   leagueByChannelId X bt (msg_channel m) = Some l \<Longrightarrow>
     getLeague X bt m co = (Inr (Some l), m\<lparr> msg_league := Defined l \<rparr>)"
  by (simp add: getLeague_def)

lemma getLeague_by_text:
  "leagueByChannelName X bt (msg_channel m) = None \<Longrightarrow>
   leagueByChannelId X bt (msg_channel m) = None \<Longrightarrow>
     fst (getLeague X bt m co) = (if co then Inr None else findLeagueByMessageText X m)"
  by (cases "findLeagueByMessageText X m")
     (auto simp: getLeague_def findLeagueByMessageText_league Let_def split: option.splits)

lemma leagueGetLeague_boundLeague:
  assumes "leagueGetLeague X None = None"
  shows "leagueGetLeague X (channelMap bt n) = boundLeague X bt n"
  by (cases "channelMap bt n") (simp_all add: boundLeague_def assms)

lemma leagueByChannelId_boundLeague:
  assumes "leagueGetLeague X (Some []) = None"
  shows "leagueByChannelId X bt (Some ch) = (if ch_id ch \<noteq> [] then boundLeague X bt (ch_id ch) else None)"
  using assms by (auto simp: leagueByChannelId_def boundLeague_def split: option.splits)

lemmas example_defs = X0_def bot0_def users0_def newLookup_def alice_def alice2_def
  builder_def league4545_def
  lonewolf_def boundChannel_def unboundChannel_def mkMessage_def okCallback_def
  throwingCallback_def pairingsListener_def plainListener_def faultyListener_def
  faultyUtilListener_def exactMatch_def

lemmas resolution_defs = getLeague_def leagueByChannelName_def leagueByChannelId_def
  findLeagueByMessageText_def bestMatches_def leagueTargets_def targetPairs_def
  targetToLeague_def

lemma wolf_by_text:
  "findLeagueByMessageText X0 (mkMessage ''U1'' boundChannel ''wolf'') = Inr (Some lonewolf)"
  by (simp add: resolution_defs example_defs)

text \<open>
  Claim C3. Let \<^verbatim>\<open>league.getLeague\<close> know no league for an undefined or an empty name.
  \<^item> If the message's channel has a non-empty name that the channel map binds to an
    existing league, \<^verbatim>\<open>getLeague\<close> returns that league and assigns it to the message.
  \<^item> Otherwise, if the channel's id is such a key, \<^verbatim>\<open>getLeague\<close> returns the league
    bound to the id.
  \<^item> Only when neither applies does the result depend on the text: it is
    \<^verbatim>\<open>undefined\<close> when \<^verbatim>\<open>channelOnly\<close> is set, else the outcome of
    \<^verbatim>\<open>findLeagueByMessageText\<close>.

  The first two cases hold for every message text and every fuzzy matcher: a binding of the
  channel wins over the text.
\<close>

theorem getLeague_three_tiers:
  assumes "leagueGetLeague X None = None" and "leagueGetLeague X (Some []) = None"
  shows "(\<forall>ch n l. msg_channel m = Some ch \<and> ch_name ch = Some n \<and> n \<noteq> []
              \<and> boundLeague X bt n = Some l
            \<longrightarrow> getLeague X bt m channelOnly = (Inr (Some l), m\<lparr> msg_league := Defined l \<rparr>))
       \<and> (\<forall>ch l. msg_channel m = Some ch
              \<and> (\<forall>n. ch_name ch = Some n \<and> n \<noteq> [] \<longrightarrow> boundLeague X bt n = None)
              \<and> ch_id ch \<noteq> [] \<and> boundLeague X bt (ch_id ch) = Some l
            \<longrightarrow> getLeague X bt m channelOnly = (Inr (Some l), m\<lparr> msg_league := Defined l \<rparr>))
       \<and> ((\<forall>ch. msg_channel m = Some ch
              \<longrightarrow> (\<forall>n. ch_name ch = Some n \<and> n \<noteq> [] \<longrightarrow> boundLeague X bt n = None)
                  \<and> (ch_id ch \<noteq> [] \<longrightarrow> boundLeague X bt (ch_id ch) = None))
            \<longrightarrow> fst (getLeague X bt m channelOnly)
                  = (if channelOnly then Inr None else findLeagueByMessageText X m))"
proof (intro conjI allI impI)
  fix ch n l
  assume "msg_channel m = Some ch \<and> ch_name ch = Some n \<and> n \<noteq> [] \<and> boundLeague X bt n = Some l"
  then have "leagueByChannelName X bt (msg_channel m) = Some l"
    by (auto simp: leagueByChannelName_def leagueGetLeague_boundLeague [OF assms(1)] split: option.splits)
  then show "getLeague X bt m channelOnly = (Inr (Some l), m\<lparr> msg_league := Defined l \<rparr>)"
    by (rule getLeague_by_name)
next
  fix ch l
  assume a: "msg_channel m = Some ch
      \<and> (\<forall>n. ch_name ch = Some n \<and> n \<noteq> [] \<longrightarrow> boundLeague X bt n = None)
      \<and> ch_id ch \<noteq> [] \<and> boundLeague X bt (ch_id ch) = Some l"
  then have "leagueByChannelName X bt (msg_channel m) = None"
    by (auto simp: leagueByChannelName_def leagueGetLeague_boundLeague [OF assms(1)] split: option.splits)
  moreover from a have "leagueByChannelId X bt (msg_channel m) = Some l"
    by (simp add: leagueByChannelId_boundLeague [OF assms(2)])
  ultimately show "getLeague X bt m channelOnly = (Inr (Some l), m\<lparr> msg_league := Defined l \<rparr>)"
    by (rule getLeague_by_id)
next
  assume a: "\<forall>ch. msg_channel m = Some ch
      \<longrightarrow> (\<forall>n. ch_name ch = Some n \<and> n \<noteq> [] \<longrightarrow> boundLeague X bt n = None)
          \<and> (ch_id ch \<noteq> [] \<longrightarrow> boundLeague X bt (ch_id ch) = None)"
  then have "leagueByChannelName X bt (msg_channel m) = None"
    by (auto simp: leagueByChannelName_def leagueGetLeague_boundLeague [OF assms(1)] split: option.splits)
  moreover have "leagueByChannelId X bt (msg_channel m) = None"
  proof (cases "msg_channel m")
    case None
    then show ?thesis by (simp add: leagueByChannelId_def)
  next
    case (Some ch)
    with a show ?thesis by (simp add: leagueByChannelId_boundLeague [OF assms(2)])
  qed
  ultimately show "fst (getLeague X bt m channelOnly)
      = (if channelOnly then Inr None else findLeagueByMessageText X m)"
    by (rule getLeague_by_text)
qed

text \<open>
  An instance of claim C3: the text \<^verbatim>\<open>wolf\<close> alone resolves to the league lonewolf, but
  in a channel whose id is bound to 45+45 the league is 45+45.
\<close>

theorem getLeague_three_tiers_witness:
  "getLeague X0 bot0 (mkMessage ''U1'' boundChannel ''wolf'') False
     = (Inr (Some league4545), (mkMessage ''U1'' boundChannel ''wolf'')\<lparr> msg_league := Defined league4545 \<rparr>)
   \<and> findLeagueByMessageText X0 (mkMessage ''U1'' boundChannel ''wolf'') = Inr (Some lonewolf)"
proof -
  have a: "leagueGetLeague X0 None = None" "leagueGetLeague X0 (Some []) = None"
    by (simp_all add: X0_def)
  have b: "msg_channel (mkMessage ''U1'' boundChannel ''wolf'') = Some boundChannel
      \<and> (\<forall>n. ch_name boundChannel = Some n \<and> n \<noteq> [] \<longrightarrow> boundLeague X0 bot0 n = None)
      \<and> ch_id boundChannel \<noteq> [] \<and> boundLeague X0 bot0 (ch_id boundChannel) = Some league4545"
    by (simp add: boundLeague_def example_defs)
  from getLeague_three_tiers [OF a, of "mkMessage ''U1'' boundChannel ''wolf''" bot0 False] b
  have "getLeague X0 bot0 (mkMessage ''U1'' boundChannel ''wolf'') False
     = (Inr (Some league4545), (mkMessage ''U1'' boundChannel ''wolf'')\<lparr> msg_league := Defined league4545 \<rparr>)"
    by blast
  with wolf_by_text show ?thesis by simp
qed

subsection \<open>Dispatch\<close>

lemmas dispatch_defs = handleMatch_def dispatchBody_def resolveMember_def entryLog_def
  getByNameOrID_def getProp_def objectPrototypeKeys_def isPingModerator_def runMiddleware_def callCallback_def withMember_def
  innerHandler_def outerHandler_def andThen_def tryCatch_def logged_def

lemma tryCatch_inner_outer:
  "tryCatch (tryCatch body innerHandler) (outerHandler ch) = tryCatch body innerHandler"
  "snd (tryCatch body innerHandler) = Inr ()"
  by (auto simp: tryCatch_def innerHandler_def split: prod.splits sum.splits)

lemma snd_andThen_unit: "snd (andThen (ev, Inr ()) (\<lambda>_. c)) = snd c"
  by (simp add: andThen_def split: prod.splits)


lemma getLeague_channel:
  "msg_channel (snd (getLeague X bt m co)) = msg_channel m"
  by (auto simp: getLeague_def Let_def split: option.splits sum.splits)

lemma getLeague_message:
  "fst (getLeague X bt m co) = Inr (Some l) \<Longrightarrow> snd (getLeague X bt m co) = m\<lparr> msg_league := Defined l \<rparr>"
  by (auto simp: getLeague_def Let_def split: option.splits sum.splits)

lemma handleMatch_returns:
  assumes "fst (getLeague X bt m False) = Inr lg" and "msg_channel m = Some ch"
  shows "snd (handleMatch X bt l m) = Inr ()"
proof -
  obtain m1 where g: "getLeague X bt m False = (Inr lg, m1)"
    using assms(1) by (cases "getLeague X bt m False") simp
  then have "msg_channel m1 = Some ch"
    using getLeague_channel [of X bt m False] assms(2) by simp
  with g show ?thesis
    by (simp add: handleMatch_def Let_def tryCatch_inner_outer snd_andThen_unit split del: if_split)
qed

lemma handleMatch_command:
  assumes "listener_type l = command"
    and "fst (getLeague X bt m False) = Inr lg" and "msg_channel m = Some ch"
  shows "handleMatch X bt l m =
      andThen (entryLog m, Inr ()) (\<lambda>_.
        tryCatch
          (andThen (logged (LogInfo ''Executing command callback for pattern'')) (\<lambda>_.
           andThen (runMiddleware (middleware l) bt
                      (withMember (resolveMember X bt m)
                         ((snd (getLeague X bt m False))
                            \<lparr> msg_isPingModerator := isPingModerator bt ch (resolveMember X bt m) \<rparr>)))
             (\<lambda>_.
           andThen (callCallback (callback l) bt
                      (withMember (resolveMember X bt m)
                         ((snd (getLeague X bt m False))
                            \<lparr> msg_isPingModerator := isPingModerator bt ch (resolveMember X bt m) \<rparr>)))
             (\<lambda>_. logged (LogInfo ''Command executed successfully'')))))
          innerHandler)"
proof -
  obtain m1 where g: "getLeague X bt m False = (Inr lg, m1)"
    using assms(2) by (cases "getLeague X bt m False") simp
  then have "msg_channel m1 = Some ch"
    using getLeague_channel [of X bt m False] assms(3) by simp
  with g assms(1) show ?thesis
    by (simp add: handleMatch_def Let_def dispatchBody_def tryCatch_inner_outer)
qed

lemma dispatchBody_warning_unreachable:
  "dispatchBody X bt l message lg mem
     (if lg = None \<or> mem = Absent then [command] else [command, league_command])
   = (if listener_type l = command then
        andThen (logged (LogInfo ''Executing command callback for pattern'')) (\<lambda>_.
        andThen (runMiddleware (middleware l) bt (withMember mem message)) (\<lambda>_.
        andThen (callCallback (callback l) bt (withMember mem message)) (\<lambda>_.
        logged (LogInfo ''Command executed successfully''))))
      else (case lg of
              Some g \<Rightarrow>
                if mem \<noteq> Absent then
                  andThen (logged (LogInfo ''Executing league_command callback for pattern'')) (\<lambda>_.
                  andThen (runMiddleware (middleware l) bt message) (\<lambda>_.
                  andThen (callCallback (callback l) bt
                             (message\<lparr> msg_league := Defined g, msg_member := mem,
                                       msg_isModerator := Some (isModerator X g (memberLichessUsername mem)) \<rparr>))
                          (\<lambda>_.
                  logged (LogInfo ''League command executed successfully''))))
                else ([], Inr ())
            | None \<Rightarrow> ([], Inr ())))"
  by (cases "listener_type l"; cases lg; cases "mem = Absent") (simp_all add: dispatchBody_def)

lemma handleMatch_downgrade:
  assumes "listener_type l = league_command"
    and "fst (getLeague X bt m False) = Inr lg" and "msg_channel m = Some ch"
    and "lg = None \<or> resolveMember X bt m = Absent"
  shows "handleMatch X bt l m = (entryLog m, Inr ())"
proof -
  obtain m1 where g: "getLeague X bt m False = (Inr lg, m1)"
    using assms(2) by (cases "getLeague X bt m False") simp
  then have "msg_channel m1 = Some ch"
    using getLeague_channel [of X bt m False] assms(3) by simp
  with g assms(1,4) show ?thesis
    by (auto simp: handleMatch_def Let_def dispatchBody_def tryCatch_def andThen_def)
qed

lemma handleMatch_plain_command_runs:
  assumes "listener_type l = command" and "middleware l = None"
    and "fst (getLeague X bt m False) = Inr lg" and "msg_channel m = Some ch"
    and "callback l bt (withMember (resolveMember X bt m)
           ((snd (getLeague X bt m False))
              \<lparr> msg_isPingModerator := isPingModerator bt ch (resolveMember X bt m) \<rparr>)) = (evc, Inr ())"
  shows "handleMatch X bt l m =
      (entryLog m @
         [LogInfo ''Executing command callback for pattern'',
          CallbackCalled (withMember (resolveMember X bt m)
             ((snd (getLeague X bt m False))
                \<lparr> msg_isPingModerator := isPingModerator bt ch (resolveMember X bt m) \<rparr>))]
         @ evc @ [LogInfo ''Command executed successfully''],
       Inr ())"
  using handleMatch_command [OF assms(1,3,4)] assms(2,5)
  by (simp add: runMiddleware_def callCallback_def andThen_def tryCatch_def logged_def)

lemma handleMatch_callback_fault:
  assumes "listener_type l = command" and "middleware l = None"
    and "fst (getLeague X bt m False) = Inr lg" and "msg_channel m = Some ch"
    and "callback l bt (withMember (resolveMember X bt m)
           ((snd (getLeague X bt m False))
              \<lparr> msg_isPingModerator := isPingModerator bt ch (resolveMember X bt m) \<rparr>)) = (evc, Inl e)"
  shows "handleMatch X bt l m =
      (entryLog m @
         [LogInfo ''Executing command callback for pattern'',
          CallbackCalled (withMember (resolveMember X bt m)
             ((snd (getLeague X bt m False))
                \<lparr> msg_isPingModerator := isPingModerator bt ch (resolveMember X bt m) \<rparr>))]
         @ evc @ fst (innerHandler e),
       Inr ())"
  using handleMatch_command [OF assms(1,3,4)] assms(2,5)
  by (simp add: runMiddleware_def callCallback_def andThen_def tryCatch_def logged_def
      innerHandler_def)

lemma processChessterMessage_returns:
  "snd (processChessterMessage rx trim txt user channel ts botUserId dm listeners) = Inr ()"
  by (auto simp: processChessterMessage_def tryCatch_def split: prod.splits sum.splits)






text \<open>
  Claim C5 at the input of the spec's scenario: the message \<^verbatim>\<open>pairings\<close> of an unknown
  user in an unbound channel, matched by a league-scoped listener. The callback is not
  called and no reply is sent, but no warning is logged either: the trace is the two
  entry log lines, both at level info. The branch that logs
  \<^verbatim>\<open>Cannot execute league command - missing league or member\<close> is not reached, since
  \<^verbatim>\<open>allowedTypes\<close> no longer holds \<^verbatim>\<open>league_command\<close> when the league or the member is
  missing (lemma \<open>dispatchBody_warning_unreachable\<close>, for all inputs).
\<close>

theorem league_command_downgrade_logs_no_warning:
  "handleMatch X0 bot0 pairingsListener (mkMessage ''U404'' unboundChannel ''pairings'')
     = ([LogInfo ''handleMatch called with pattern'', LogInfo ''Handle match found user''], Inr ())"
  by (simp add: dispatch_defs resolution_defs example_defs)

text \<open>
  Claim C6 at a callback that throws. In \<^verbatim>\<open>handleMatch\<close> the inner \<^verbatim>\<open>catch\<close> logs the
  error and swallows it: nothing is said to the user, and the outer \<^verbatim>\<open>catch\<close> with its
  apology is never entered (lemma \<open>tryCatch_inner_outer\<close>). \<^verbatim>\<open>processChessterMessage\<close> on
  the same fault logs the error and sends its apology. Neither lets the error out.
\<close>

theorem handleMatch_callback_fault_no_apology:
  "handleMatch X0 bot0 faultyListener (mkMessage ''U1'' boundChannel ''crash'')
     = ([LogInfo ''handleMatch called with pattern'', LogInfo ''Handle match found user'',
         LogInfo ''Executing command callback for pattern'',
         CallbackCalled ((mkMessage ''U1'' boundChannel ''crash'')
                           \<lparr> msg_member := Own alice, msg_league := Defined league4545 \<rparr>),
         LogError ''Error in command execution''],
        Inr ())
   \<and> processChessterMessage exactMatch (\<lambda>s. s) ''crash'' ''U1'' boundChannel ''1.0'' None False
        [faultyUtilListener]
     = ([LogInfo ''Processing message'',
         CallbackCalled ((mkMessage ''U1'' boundChannel ''crash'')\<lparr> msg_matches := [''crash''] \<rparr>),
         LogError ''Error processing message'',
         Say ''C1'' mrScribblesText],
        Inr ())"
  by (simp add: dispatch_defs resolution_defs example_defs processChessterMessage_def
      determineMessageContext_def doesListenerWantMessageType_def applyMiddleware_def Let_def)

lemma includesStr_self: "includesStr (p @ zs) p"
proof (cases "p @ zs")
  case Nil
  then show ?thesis by simp
next
  case (Cons a list)
  have "prefix p (p @ zs)" by simp
  with Cons show ?thesis by simp
qed

lemma includesStr_append: "includesStr ys p \<Longrightarrow> includesStr (xs @ ys) p"
  by (induction xs) auto

lemma notModeratorText_includes: "includesStr (notModeratorText n) n"
  unfolding notModeratorText_def by (intro includesStr_append includesStr_self)

text \<open>
  Claim C7. For a message in a channel:
  \<^item> with a resolved league and a falsy \<^verbatim>\<open>isModerator\<close>, \<^verbatim>\<open>requiresModerator\<close> makes
    exactly one reply, whose text contains the league's name, and throws
    \<^verbatim>\<open>StopControllerError\<close>;
  \<^item> with no resolved league it throws a plain \<^verbatim>\<open>Error\<close> and replies nothing;
  \<^item> with a resolved league and \<^verbatim>\<open>isModerator\<close> set it returns the message and replies
    nothing;
  \<^item> as the middleware of a plain command in \<^verbatim>\<open>handleMatch\<close>, with a resolved league
    and a falsy \<^verbatim>\<open>isModerator\<close>: the reply is sent once, the abort is caught and logged,
    the callback is not called, and \<^verbatim>\<open>handleMatch\<close> returns normally.
\<close>

theorem requiresModerator_outcomes:
  "(\<forall>lg ch. msg_league m = Defined lg \<and> \<not> orFalse (msg_isModerator m) \<and> msg_channel m = Some ch \<longrightarrow>
       requiresModerator bt m
         = ([Say (ch_id ch) (notModeratorText (league_name lg))],
            Inl (StopControllerError ''Not a moderator.''))
       \<and> includesStr (notModeratorText (league_name lg)) (league_name lg))
   \<and> (\<not> truthy (msg_league m) \<longrightarrow>
        fst (requiresModerator bt m) = [] \<and> (\<exists>s. snd (requiresModerator bt m) = Inl (Error s)))
   \<and> (\<forall>lg. msg_league m = Defined lg \<and> orFalse (msg_isModerator m) \<longrightarrow>
        requiresModerator bt m = ([], Inr m))
   \<and> (\<forall>lg ch. listener_type l = command \<and> middleware l = Some [requiresModerator]
          \<and> fst (getLeague X bt m False) = Inr (Some lg) \<and> msg_channel m = Some ch
          \<and> \<not> orFalse (msg_isModerator m) \<longrightarrow>
        handleMatch X bt l m
          = (entryLog m @
               [LogInfo ''Executing command callback for pattern'',
                Say (ch_id ch) (notModeratorText (league_name lg)),
                LogError ''Error in command execution'',
                LogError ''Middleware asked to not process controller callback''],
             Inr ()))"
proof (intro conjI allI impI)
  fix lg ch
  assume "msg_league m = Defined lg \<and> \<not> orFalse (msg_isModerator m) \<and> msg_channel m = Some ch"
  then show "requiresModerator bt m
         = ([Say (ch_id ch) (notModeratorText (league_name lg))],
            Inl (StopControllerError ''Not a moderator.''))"
    by (simp add: requiresModerator_def reply_def)
  show "includesStr (notModeratorText (league_name lg)) (league_name lg)"
    by (rule notModeratorText_includes)
next
  assume "\<not> truthy (msg_league m)"
  then show "fst (requiresModerator bt m) = []" "\<exists>s. snd (requiresModerator bt m) = Inl (Error s)"
    by (cases "msg_league m"; simp add: requiresModerator_def)+
next
  fix lg
  assume "msg_league m = Defined lg \<and> orFalse (msg_isModerator m)"
  then show "requiresModerator bt m = ([], Inr m)"
    by (simp add: requiresModerator_def)
next
  fix lg ch
  assume a: "listener_type l = command \<and> middleware l = Some [requiresModerator]
          \<and> fst (getLeague X bt m False) = Inr (Some lg) \<and> msg_channel m = Some ch
          \<and> \<not> orFalse (msg_isModerator m)"
  then have s: "snd (getLeague X bt m False) = m\<lparr> msg_league := Defined lg \<rparr>"
    by (simp add: getLeague_message)
  from a have "handleMatch X bt l m =
      andThen (entryLog m, Inr ()) (\<lambda>_.
        tryCatch
          (andThen (logged (LogInfo ''Executing command callback for pattern'')) (\<lambda>_.
           andThen (runMiddleware (middleware l) bt
                      (withMember (resolveMember X bt m)
                         ((snd (getLeague X bt m False))
                            \<lparr> msg_isPingModerator := isPingModerator bt ch (resolveMember X bt m) \<rparr>)))
             (\<lambda>_.
           andThen (callCallback (callback l) bt
                      (withMember (resolveMember X bt m)
                         ((snd (getLeague X bt m False))
                            \<lparr> msg_isPingModerator := isPingModerator bt ch (resolveMember X bt m) \<rparr>)))
             (\<lambda>_. logged (LogInfo ''Command executed successfully'')))))
          innerHandler)"
    by (intro handleMatch_command) auto
  with a s show "handleMatch X bt l m
          = (entryLog m @
               [LogInfo ''Executing command callback for pattern'',
                Say (ch_id ch) (notModeratorText (league_name lg)),
                LogError ''Error in command execution'',
                LogError ''Middleware asked to not process controller callback''],
             Inr ())"
    by (simp add: runMiddleware_def requiresModerator_def reply_def withMember_def
        andThen_def tryCatch_def logged_def innerHandler_def)
qed

text \<open>An instance of claim C7 in the channel \<^verbatim>\<open>C1\<close> and the league 45+45.\<close>

theorem requiresModerator_outcomes_witness:
  "requiresModerator bot0 ((mkMessage ''U1'' boundChannel ''close round'')\<lparr> msg_league := Defined league4545 \<rparr>)
     = ([Say ''C1'' ''You are not a moderator of the 45+45 league. Your temerity has been logged.''],
        Inl (StopControllerError ''Not a moderator.''))
   \<and> requiresModerator bot0 (mkMessage ''U1'' boundChannel ''close round'')
     = ([], Inl (Error ''requiresModerator MUST be called after withLeague.''))
   \<and> requiresModerator bot0 ((mkMessage ''U1'' boundChannel ''close round'')
        \<lparr> msg_league := Defined league4545, msg_isModerator := Some True \<rparr>)
     = ([], Inr ((mkMessage ''U1'' boundChannel ''close round'')
        \<lparr> msg_league := Defined league4545, msg_isModerator := Some True \<rparr>))"
proof -
  let ?m = "(mkMessage ''U1'' boundChannel ''close round'')\<lparr> msg_league := Defined league4545 \<rparr>"
  have "msg_league ?m = Defined league4545 \<and> \<not> orFalse (msg_isModerator ?m)
      \<and> msg_channel ?m = Some boundChannel"
    by (simp add: mkMessage_def)
  with requiresModerator_outcomes [of ?m bot0]
  have "requiresModerator bot0 ?m
         = ([Say (ch_id boundChannel) (notModeratorText (league_name league4545))],
            Inl (StopControllerError ''Not a moderator.''))"
    by blast
  then show ?thesis
    by (simp add: requiresModerator_def notModeratorText_def example_defs)
qed

end
